theory Spec2Isabelle
  imports Complex_Main "HOL-Library.Multiset"
begin

section \<open>The Outliers widget (Orange/widgets/data/owoutliers.py)\<close>

text \<open>
  The widget \<open>OWOutliers\<close> is embedded as a record of its fields and one HOL function per
  method. The learners and the tables of the Orange library are not part of the file:
  a table is a domain and a list of rows, and the three library calls the widget makes
  (fitting a learner, predicting with the fitted model, the model's Mahalanobis
  distances) are the fields of a parameter \<open>lib\<close>. Python floats are read as reals.
  The input is a table or \<open>None\<close>; the decorator \<open>check_sql_input\<close> passes both on as
  they are.
\<close>

subsection \<open>Tables (Orange.data)\<close>

datatype variable =
    ContinuousVariable (name: string)
  | DiscreteVariable (name: string)
  | StringVariable (name: string)

record "domain" =
  attributes :: "variable list"
  class_vars :: "variable list"
  metas :: "variable list"

datatype cell = Num real | Str string

text \<open>One row of a table: its part of the arrays \<open>X\<close>, \<open>Y\<close> and \<open>metas\<close>.\<close>

record row =
  row_X :: "real list"
  row_Y :: "real list"
  row_metas :: "cell list"

record table =
  domain :: "domain"
  rows :: "row list"

text \<open>\<open>len(table)\<close>, and the truth value Python gives \<open>table\<close> in a condition:
  \<open>None\<close> and a table without rows are false.\<close>

definition len :: "table \<Rightarrow> nat" where
  "len t = length (rows t)"

definition truthy :: "table option \<Rightarrow> bool" where
  "truthy t = (case t of None \<Rightarrow> False | Some d \<Rightarrow> rows d \<noteq> [])"

text \<open>The array \<open>table.X\<close>.\<close>

definition table_X :: "table \<Rightarrow> real list list" where
  "table_X t = map row_X (rows t)"

subsection \<open>Exceptions and the learning library\<close>

text \<open>
  \<open>ValueError msg\<close> stands for an instance of Python's \<open>ValueError\<close> (or of a subclass)
  with its message, \<open>MemoryError\<close> for an instance of \<open>MemoryError\<close>, and
  \<open>OtherException cls\<close> for an exception of any other class.
\<close>

datatype exn = ValueError string | MemoryError | OtherException string

datatype preprocessors = SklLearner_preprocessors | Learner_default_preprocessors

datatype learner =
    OneClassSVMLearner (svm_gamma: real) (svm_nu: real) (svm_preprocessors: preprocessors)
  | EllipticEnvelopeLearner (ee_support_fraction: "real option") (ee_contamination: real)

record 'm library =
  fit :: "learner \<Rightarrow> table \<Rightarrow> exn + 'm"
  predict :: "'m \<Rightarrow> table \<Rightarrow> exn + int list"
  mahalanobis :: "'m \<Rightarrow> real list list \<Rightarrow> exn + real list"

subsection \<open>The widget's state\<close>

datatype summary = NoInput | NoOutput | Count nat

definition OneClassSVM :: int where
  "OneClassSVM = 0"

definition Covariance :: int where
  "Covariance = 1"

definition MAX_FEATURES :: nat where
  "MAX_FEATURES = 1500"

record widget =
  data :: "table option"
  n_inliers :: "nat option"
  n_outliers :: "nat option"
  outlier_method :: int
  nu :: int
  gamma :: real
  cont :: int
  empirical_covariance :: bool
  support_fraction :: real
  rb_cov_enabled :: bool
  l_cov_enabled :: bool
  cont_slider_enabled :: bool
  cb_emp_cov_enabled :: bool
  support_fraction_spin_enabled :: bool
  Warning_disabled_cov :: bool
  Error_singular_cov :: bool
  Error_memory_error :: bool
  input_summary :: summary
  output_summary :: summary
  Outputs_inliers :: "table option"
  Outputs_outliers :: "table option"

text \<open>The state \<open>__init__\<close> leaves, for the stored settings given: no data, unknown
  counts, every control enabled, no message shown, nothing sent.\<close>

definition init_widget :: "int \<Rightarrow> int \<Rightarrow> real \<Rightarrow> int \<Rightarrow> bool \<Rightarrow> real \<Rightarrow> widget" where
  "init_widget method0 nu0 gamma0 cont0 emp0 sf0 =
     \<lparr>data = None, n_inliers = None, n_outliers = None,
      outlier_method = method0, nu = nu0, gamma = gamma0, cont = cont0,
      empirical_covariance = emp0, support_fraction = sf0,
      rb_cov_enabled = True, l_cov_enabled = True, cont_slider_enabled = True,
      cb_emp_cov_enabled = True, support_fraction_spin_enabled = True,
      Warning_disabled_cov = False, Error_singular_cov = False, Error_memory_error = False,
      input_summary = NoInput, output_summary = NoOutput,
      Outputs_inliers = None, Outputs_outliers = None\<rparr>"

text \<open>The settings' defaults.\<close>

definition default_widget :: widget where
  "default_widget = init_widget OneClassSVM 50 (1 / 100) 10 False 1"

subsection \<open>The callbacks of the controls\<close>

definition nu_changed :: "widget \<Rightarrow> widget" where
  "nu_changed w = w\<lparr>outlier_method := OneClassSVM\<rparr>"

definition gamma_changed :: "widget \<Rightarrow> widget" where
  "gamma_changed w = w\<lparr>outlier_method := OneClassSVM\<rparr>"

definition cont_changed :: "widget \<Rightarrow> widget" where
  "cont_changed w = w\<lparr>outlier_method := Covariance\<rparr>"

definition support_fraction_changed :: "widget \<Rightarrow> widget" where
  "support_fraction_changed w = w\<lparr>outlier_method := Covariance\<rparr>"

definition empirical_changed :: "widget \<Rightarrow> widget" where
  "empirical_changed w = w\<lparr>outlier_method := Covariance\<rparr>"

definition enable_covariance :: "bool \<Rightarrow> widget \<Rightarrow> widget" where
  "enable_covariance enable w =
     w\<lparr>rb_cov_enabled := enable, l_cov_enabled := enable, cont_slider_enabled := enable,
       cb_emp_cov_enabled := enable, support_fraction_spin_enabled := enable\<rparr>"

definition enable_controls :: "widget \<Rightarrow> widget" where
  "enable_controls w =
     (let w1 = enable_covariance True w in
      if truthy (data w1)
         \<and> length (attributes (domain (the (data w1)))) > MAX_FEATURES
      then (enable_covariance False (w1\<lparr>outlier_method := OneClassSVM\<rparr>))
             \<lparr>Warning_disabled_cov := True\<rparr>
      else w1)"

text \<open>\<open>clear_messages\<close> of the widget base class hides every warning and error.\<close>

definition clear_messages :: "widget \<Rightarrow> widget" where
  "clear_messages w =
     w\<lparr>Warning_disabled_cov := False, Error_singular_cov := False,
       Error_memory_error := False\<rparr>"

subsection \<open>Detection\<close>

text \<open>The learner \<open>detect_outliers\<close> builds from the settings.\<close>

definition make_learner :: "widget \<Rightarrow> learner" where
  "make_learner w =
     (if outlier_method w = OneClassSVM
      then OneClassSVMLearner (gamma w) (of_int (nu w) / 100) SklLearner_preprocessors
      else EllipticEnvelopeLearner
             (if empirical_covariance w then Some (support_fraction w) else None)
             (of_int (cont w) / 100))"

text \<open>
  \<open>amended_data\<close>: for the covariance method the table gets one more meta variable,
  \<open>ContinuousVariable "Mahalanobis"\<close>, and each row's metas get the row's distance.
  \<open>reshape(len(data), 1)\<close> raises a \<open>ValueError\<close> unless there is one distance per row.
  Building the new \<open>Domain\<close> and \<open>transform\<close> are taken to succeed and to keep the values
  of the variables the two domains share.
\<close>

definition amended_data :: "'m library \<Rightarrow> widget \<Rightarrow> 'm \<Rightarrow> exn + table option" where
  "amended_data lib w model =
     (if outlier_method w \<noteq> Covariance then Inr (data w)
      else case data w of
        None \<Rightarrow> Inl (OtherException ''AttributeError'')
      | Some d \<Rightarrow>
         (case mahalanobis lib model (table_X d) of
            Inl e \<Rightarrow> Inl e
          | Inr mahal \<Rightarrow>
             if length mahal \<noteq> len d then Inl (ValueError ''cannot reshape array'')
             else
               let attrs = attributes (domain d);
                   classes = class_vars (domain d);
                   new_metas = metas (domain d) @ [ContinuousVariable ''Mahalanobis''];
                   new_domain = \<lparr>attributes = attrs, class_vars = classes, metas = new_metas\<rparr>
               in Inr (Some \<lparr>domain = new_domain,
                             rows = map2 (\<lambda>r v. r\<lparr>row_metas := row_metas r @ [Num v]\<rparr>)
                                      (rows d) mahal\<rparr>)))"

definition detect_outliers :: "'m library \<Rightarrow> widget \<Rightarrow> exn + (int list \<times> table option)" where
  "detect_outliers lib w =
     (let learner = make_learner w in
      case data w of
        None \<Rightarrow> Inl (OtherException ''AttributeError'')
      | Some d \<Rightarrow>
         (case fit lib learner d of
            Inl e \<Rightarrow> Inl e
          | Inr model \<Rightarrow>
             (case predict lib model d of
                Inl e \<Rightarrow> Inl e
              | Inr y_pred \<Rightarrow>
                 (case amended_data lib w model of
                    Inl e \<Rightarrow> Inl e
                  | Inr amended \<Rightarrow> Inr (y_pred, amended)))))"

text \<open>\<open>np.where(y_pred == v)[0]\<close>: the positions holding \<open>v\<close>, in increasing order.\<close>

definition where_eq :: "int list \<Rightarrow> int \<Rightarrow> nat list" where
  "where_eq y_pred v = filter (\<lambda>i. y_pred ! i = v) [0..<length y_pred]"

text \<open>\<open>table[indices]\<close>: the rows at the indices, in the order of the indices, over the
  same domain; an index past the last row raises \<open>IndexError\<close>, and \<open>None\<close> cannot be
  indexed.\<close>

definition getitem :: "table option \<Rightarrow> nat list \<Rightarrow> exn + table" where
  "getitem t inds =
     (case t of
        None \<Rightarrow> Inl (OtherException ''TypeError'')
      | Some d \<Rightarrow>
         if list_all (\<lambda>i. i < len d) inds
         then Inr \<lparr>domain = domain d, rows = map (\<lambda>i. rows d ! i) inds\<rparr>
         else Inl (OtherException ''IndexError''))"

text \<open>\<open>_get_outliers\<close>: the result, or the exception that leaves the method, and the
  widget's state afterwards.\<close>

definition get_outliers ::
  "'m library \<Rightarrow> widget \<Rightarrow> (exn + (table option \<times> table option)) \<times> widget" where
  "get_outliers lib w =
     (let w1 = w\<lparr>Error_singular_cov := False\<rparr>;
          w2 = w1\<lparr>Error_memory_error := False\<rparr>
      in case detect_outliers lib w2 of
           Inl (ValueError msg) \<Rightarrow> (Inr (None, None), w2\<lparr>Error_singular_cov := True\<rparr>)
         | Inl MemoryError \<Rightarrow> (Inr (None, None), w2\<lparr>Error_memory_error := True\<rparr>)
         | Inl (OtherException c) \<Rightarrow> (Inl (OtherException c), w2)
         | Inr (y_pred, amended) \<Rightarrow>
            (let inliers_ind = where_eq y_pred 1;
                 outliers_ind = where_eq y_pred (- 1)
             in case getitem amended inliers_ind of
                  Inl e \<Rightarrow> (Inl e, w2)
                | Inr inliers \<Rightarrow>
                   (case getitem amended outliers_ind of
                      Inl e \<Rightarrow> (Inl e, w2)
                    | Inr outliers \<Rightarrow>
                       (Inr (Some inliers, Some outliers),
                        w2\<lparr>n_inliers := Some (len inliers),
                           n_outliers := Some (len outliers)\<rparr>))))"

definition commit :: "'m library \<Rightarrow> widget \<Rightarrow> (exn + unit) \<times> widget" where
  "commit lib w =
     (let w1 = w\<lparr>n_inliers := None, n_outliers := None\<rparr>;
          (r, w2) = (if truthy (data w1) then get_outliers lib w1
                     else (Inr (None, None), w1))
      in case r of
           Inl e \<Rightarrow> (Inl e, w2)
         | Inr (inliers, outliers) \<Rightarrow>
            (Inr (),
             w2\<lparr>output_summary :=
                  (if truthy inliers then Count (len (the inliers)) else NoOutput),
                Outputs_inliers := inliers,
                Outputs_outliers := outliers\<rparr>))"

text \<open>\<open>set_data\<close> up to its last line (the call of \<open>commit\<close>), and \<open>set_data\<close>.\<close>

definition set_data_before_commit :: "table option \<Rightarrow> widget \<Rightarrow> widget" where
  "set_data_before_commit d w =
     enable_controls
       ((clear_messages w)
          \<lparr>data := d,
           input_summary := (if truthy d then Count (len (the d)) else NoOutput)\<rparr>)"

definition set_data :: "'m library \<Rightarrow> table option \<Rightarrow> widget \<Rightarrow> (exn + unit) \<times> widget" where
  "set_data lib d w = commit lib (set_data_before_commit d w)"

subsection \<open>The report\<close>

datatype report_value = RInt int | RFloat real | RStr string

type_synonym report = "(string \<times> (string \<times> report_value) list) list"

text \<open>\<open>send_report\<close>: the calls of \<open>report_items\<close> it makes, in order; \<open>len(None)\<close> raises
  \<open>TypeError\<close>.\<close>

definition send_report :: "widget \<Rightarrow> exn + report" where
  "send_report w =
     (if n_outliers w = None \<or> n_inliers w = None then Inr []
      else case data w of
        None \<Rightarrow> Inl (OtherException ''TypeError'')
      | Some d \<Rightarrow>
         Inr [(''Data'',
               [(''Input instances'', RInt (int (len d))),
                (''Inliers'', RInt (int (the (n_inliers w)))),
                (''Outliers'', RInt (int (the (n_outliers w))))]),
              (if outlier_method w = 0
               then (''Detection'',
                     [(''Detection method'',
                         RStr ''One class SVM with non-linear kernel (RBF)''),
                      (''Regularization (nu)'', RInt (nu w)),
                      (''Kernel coefficient'', RFloat (gamma w))])
               else (''Detection'',
                     [(''Detection method'', RStr ''Covariance estimator''),
                      (''Contamination'', RInt (cont w)),
                      (''Support fraction'', RFloat (support_fraction w))]))])"

subsection \<open>The user's actions\<close>

text \<open>
  What can happen to the widget between two calls: a table (or \<open>None\<close>) arrives on
  the input, the user moves a control, picks a radio button or presses
  "Detect Outliers". A control bound to a setting stores the new value and then calls
  its callback; the radio buttons are bound to \<open>outlier_method\<close> and have no callback.
  A disabled control takes no input, so its action is possible only while it is enabled.
  An exception that leaves a handler is reported by the event loop and the widget lives
  on in the state the handler left.
\<close>

datatype event =
    Receive "table option"
  | MoveNu int
  | SpinGamma real
  | MoveCont int
  | ToggleEmpirical bool
  | SpinSupportFraction real
  | PickMethod int
  | PressDetect

fun possible :: "event \<Rightarrow> widget \<Rightarrow> bool" where
  "possible (MoveCont v) w = cont_slider_enabled w"
| "possible (ToggleEmpirical b) w = cb_emp_cov_enabled w"
| "possible (SpinSupportFraction v) w = support_fraction_spin_enabled w"
| "possible (PickMethod m) w = (m = OneClassSVM \<or> m = Covariance \<and> rb_cov_enabled w)"
| "possible ev w = True"

fun fire :: "'m library \<Rightarrow> event \<Rightarrow> widget \<Rightarrow> widget" where
  "fire lib (Receive d) w = snd (set_data lib d w)"
| "fire lib (MoveNu v) w = nu_changed (w\<lparr>nu := v\<rparr>)"
| "fire lib (SpinGamma v) w = gamma_changed (w\<lparr>gamma := v\<rparr>)"
| "fire lib (MoveCont v) w = cont_changed (w\<lparr>cont := v\<rparr>)"
| "fire lib (ToggleEmpirical b) w = empirical_changed (w\<lparr>empirical_covariance := b\<rparr>)"
| "fire lib (SpinSupportFraction v) w =
     support_fraction_changed (w\<lparr>support_fraction := v\<rparr>)"
| "fire lib (PickMethod m) w = w\<lparr>outlier_method := m\<rparr>"
| "fire lib PressDetect w = snd (commit lib w)"

inductive reachable :: "'m library \<Rightarrow> widget \<Rightarrow> bool" for lib :: "'m library" where
  start: "reachable lib (init_widget method0 nu0 gamma0 cont0 emp0 sf0)"
| step: "reachable lib w \<Longrightarrow> possible ev w \<Longrightarrow> reachable lib (fire lib ev w)"

text \<open>A run succeeds when \<open>commit\<close> calls \<open>_get_outliers\<close> and gets two tables back.\<close>

definition detection_succeeds :: "'m library \<Rightarrow> widget \<Rightarrow> bool" where
  "detection_succeeds lib w =
     (truthy (data w) \<and>
      (case fst (get_outliers lib w) of
         Inr (Some inliers, Some outliers) \<Rightarrow> True
       | _ \<Rightarrow> False))"

text \<open>The state in which an action calls \<open>commit\<close>, if it does.\<close>

fun commits_in :: "event \<Rightarrow> widget \<Rightarrow> widget option" where
  "commits_in (Receive d) w = Some (set_data_before_commit d w)"
| "commits_in PressDetect w = Some w"
| "commits_in ev w = None"

definition run_succeeds :: "'m library \<Rightarrow> event \<Rightarrow> widget \<Rightarrow> bool" where
  "run_succeeds lib ev w =
     (case commits_in ev w of None \<Rightarrow> False | Some w0 \<Rightarrow> detection_succeeds lib w0)"

text \<open>The states reached without any successful run so far.\<close>

inductive no_success_yet :: "'m library \<Rightarrow> widget \<Rightarrow> bool" for lib :: "'m library" where
  fresh: "no_success_yet lib (init_widget method0 nu0 gamma0 cont0 emp0 sf0)"
| later: "no_success_yet lib w \<Longrightarrow> possible ev w \<Longrightarrow> \<not> run_succeeds lib ev w \<Longrightarrow>
          no_success_yet lib (fire lib ev w)"

text \<open>
  How the feature-count guard shows in a state: the warning is shown exactly when the
  stored table is true in a condition and has more than \<open>MAX_FEATURES\<close> feature columns;
  then the method is OneClassSVM and the five covariance controls are disabled, and
  otherwise the five are enabled.
\<close>

definition guard_inv :: "widget \<Rightarrow> bool" where
  "guard_inv w =
     ((Warning_disabled_cov w \<longleftrightarrow>
         truthy (data w) \<and> MAX_FEATURES < length (attributes (domain (the (data w))))) \<and>
      (if Warning_disabled_cov w
       then outlier_method w = OneClassSVM \<and>
            \<not> rb_cov_enabled w \<and> \<not> l_cov_enabled w \<and> \<not> cont_slider_enabled w \<and>
            \<not> cb_emp_cov_enabled w \<and> \<not> support_fraction_spin_enabled w
       else rb_cov_enabled w \<and> l_cov_enabled w \<and> cont_slider_enabled w \<and>
            cb_emp_cov_enabled w \<and> support_fraction_spin_enabled w))"

subsection \<open>Sample inputs\<close>

text \<open>A library double: fitting gives \<open>fit_result\<close>, the model predicts \<open>labels\<close> and
  reports the distances \<open>dists\<close>.\<close>

definition fixed_library :: "exn + unit \<Rightarrow> int list \<Rightarrow> real list \<Rightarrow> unit library" where
  "fixed_library fit_result labels dists =
     \<lparr>fit = (\<lambda>l d. fit_result),
      predict = (\<lambda>m d. Inr labels),
      mahalanobis = (\<lambda>m X. Inr dists)\<rparr>"

text \<open>A library double that fits the learner \<open>expected\<close> and refuses every other one.\<close>

definition expecting_library :: "learner \<Rightarrow> int list \<Rightarrow> real list \<Rightarrow> unit library" where
  "expecting_library expected labels dists =
     \<lparr>fit = (\<lambda>l d. if l = expected then Inr () else Inl (OtherException ''TypeError'')),
      predict = (\<lambda>m d. Inr labels),
      mahalanobis = (\<lambda>m X. Inr dists)\<rparr>"

definition iris3 :: table where
  "iris3 =
     \<lparr>domain = \<lparr>attributes = [ContinuousVariable ''sepal'', ContinuousVariable ''petal''],
                 class_vars = [DiscreteVariable ''iris''],
                 metas = [StringVariable ''id'']\<rparr>,
      rows = [\<lparr>row_X = [5, 1], row_Y = [0], row_metas = [Str ''a'']\<rparr>,
              \<lparr>row_X = [7, 4], row_Y = [1], row_metas = [Str ''b'']\<rparr>,
              \<lparr>row_X = [6, 5], row_Y = [2], row_metas = [Str ''c'']\<rparr>]\<rparr>"

text \<open>A table with 1501 feature columns: with one row, and with none.\<close>

definition wide_domain :: "domain" where
  "wide_domain =
     \<lparr>attributes = map (\<lambda>i. ContinuousVariable (replicate (Suc i) CHR ''f'')) [0..<1501],
      class_vars = [], metas = []\<rparr>"

definition wide1 :: table where
  "wide1 = \<lparr>domain = wide_domain,
            rows = [\<lparr>row_X = replicate 1501 0, row_Y = [], row_metas = []\<rparr>]\<rparr>"

definition wide0 :: table where
  "wide0 = \<lparr>domain = wide_domain, rows = []\<rparr>"

section \<open>Properties\<close>

subsection \<open>Auxiliary facts\<close>

lemma where_eq_Nil: "where_eq [] v = []"
  by (simp add: where_eq_def)

lemma where_eq_Cons:
  "where_eq (y # ys) v = (if y = v then [0] else []) @ map Suc (where_eq ys v)"
proof -
  have "[0..<length (y # ys)] = 0 # map Suc [0..<length ys]"
    by (simp add: upt_conv_Cons map_Suc_upt del: upt_Suc)
  then show ?thesis
    by (simp add: where_eq_def filter_map comp_def)
qed

lemma set_where_eq: "set (where_eq ys v) = {i. i < length ys \<and> ys ! i = v}"
  by (auto simp: where_eq_def)

lemma sorted_where_eq: "sorted_wrt (<) (where_eq ys v)"
  unfolding where_eq_def by (rule sorted_wrt_filter) simp

lemma length_where_eq: "length (where_eq ys v) = length (filter (\<lambda>l. l = v) ys)"
  by (induction ys) (simp_all add: where_eq_Nil where_eq_Cons)

lemma map_nth_where_eq:
  "length ys = length rs \<Longrightarrow>
   map (\<lambda>i. rs ! i) (where_eq ys v) = map snd (filter (\<lambda>p. fst p = v) (zip ys rs))"
proof (induction ys arbitrary: rs)
  case Nil
  then show ?case by (simp add: where_eq_Nil)
next
  case (Cons y ys)
  then obtain r rs' where rs: "rs = r # rs'" by (cases rs) auto
  with Cons.prems have "length ys = length rs'" by simp
  then have "map (\<lambda>i. rs' ! i) (where_eq ys v) = map snd (filter (\<lambda>p. fst p = v) (zip ys rs'))"
    by (rule Cons.IH)
  then show ?case by (simp add: rs where_eq_Cons comp_def)
qed

lemma where_eq_in_range: "length ys \<le> n \<Longrightarrow> list_all (\<lambda>i. i < n) (where_eq ys v)"
  by (auto simp: list_all_iff set_where_eq)

text \<open>\<open>detect_outliers\<close> reads the data and the settings only.\<close>

lemma make_learner_frame [simp]:
  "make_learner (w\<lparr>Error_singular_cov := a\<rparr>) = make_learner w"
  "make_learner (w\<lparr>Error_memory_error := a\<rparr>) = make_learner w"
  "make_learner (w\<lparr>n_inliers := b\<rparr>) = make_learner w"
  "make_learner (w\<lparr>n_outliers := b\<rparr>) = make_learner w"
  by (simp_all add: make_learner_def)

lemma amended_data_frame [simp]:
  "amended_data lib (w\<lparr>Error_singular_cov := a\<rparr>) = amended_data lib w"
  "amended_data lib (w\<lparr>Error_memory_error := a\<rparr>) = amended_data lib w"
  "amended_data lib (w\<lparr>n_inliers := b\<rparr>) = amended_data lib w"
  "amended_data lib (w\<lparr>n_outliers := b\<rparr>) = amended_data lib w"
  by (simp_all add: amended_data_def fun_eq_iff)

lemma detect_outliers_frame [simp]:
  "detect_outliers lib (w\<lparr>Error_singular_cov := a\<rparr>) = detect_outliers lib w"
  "detect_outliers lib (w\<lparr>Error_memory_error := a\<rparr>) = detect_outliers lib w"
  "detect_outliers lib (w\<lparr>n_inliers := b\<rparr>) = detect_outliers lib w"
  "detect_outliers lib (w\<lparr>n_outliers := b\<rparr>) = detect_outliers lib w"
  by (simp_all add: detect_outliers_def cong: option.case_cong sum.case_cong)

lemma get_outliers_ValueError:
  "detect_outliers lib w = Inl (ValueError msg) \<Longrightarrow>
   get_outliers lib w =
     (Inr (None, None), w\<lparr>Error_singular_cov := True, Error_memory_error := False\<rparr>)"
  by (simp add: get_outliers_def)

lemma get_outliers_MemoryError:
  "detect_outliers lib w = Inl MemoryError \<Longrightarrow>
   get_outliers lib w =
     (Inr (None, None), w\<lparr>Error_singular_cov := False, Error_memory_error := True\<rparr>)"
  by (simp add: get_outliers_def)

lemma get_outliers_OtherException:
  "detect_outliers lib w = Inl (OtherException c) \<Longrightarrow>
   get_outliers lib w =
     (Inl (OtherException c), w\<lparr>Error_singular_cov := False, Error_memory_error := False\<rparr>)"
  by (simp add: get_outliers_def)

lemma get_outliers_success:
  "detect_outliers lib w = Inr (y_pred, Some a) \<Longrightarrow> length y_pred \<le> len a \<Longrightarrow>
   get_outliers lib w =
     (Inr (Some \<lparr>domain = domain a, rows = map (\<lambda>i. rows a ! i) (where_eq y_pred 1)\<rparr>,
           Some \<lparr>domain = domain a, rows = map (\<lambda>i. rows a ! i) (where_eq y_pred (- 1))\<rparr>),
      w\<lparr>Error_singular_cov := False, Error_memory_error := False,
        n_inliers := Some (length (where_eq y_pred 1)),
        n_outliers := Some (length (where_eq y_pred (- 1)))\<rparr>)"
  by (simp add: get_outliers_def getitem_def where_eq_in_range len_def Let_def)

lemma commit_no_data:
  "\<not> truthy (data w) \<Longrightarrow>
   commit lib w =
     (Inr (), w\<lparr>n_inliers := None, n_outliers := None, output_summary := NoOutput,
               Outputs_inliers := None, Outputs_outliers := None\<rparr>)"
  by (simp add: commit_def truthy_def)

lemma commit_ValueError:
  "truthy (data w) \<Longrightarrow> detect_outliers lib w = Inl (ValueError msg) \<Longrightarrow>
   commit lib w =
     (Inr (), w\<lparr>n_inliers := None, n_outliers := None,
               Error_singular_cov := True, Error_memory_error := False,
               output_summary := NoOutput,
               Outputs_inliers := None, Outputs_outliers := None\<rparr>)"
  by (simp add: commit_def get_outliers_ValueError truthy_def)

lemma commit_MemoryError:
  "truthy (data w) \<Longrightarrow> detect_outliers lib w = Inl MemoryError \<Longrightarrow>
   commit lib w =
     (Inr (), w\<lparr>n_inliers := None, n_outliers := None,
               Error_singular_cov := False, Error_memory_error := True,
               output_summary := NoOutput,
               Outputs_inliers := None, Outputs_outliers := None\<rparr>)"
  by (simp add: commit_def get_outliers_MemoryError truthy_def)

lemma commit_OtherException:
  "truthy (data w) \<Longrightarrow> detect_outliers lib w = Inl (OtherException c) \<Longrightarrow>
   commit lib w =
     (Inl (OtherException c),
      w\<lparr>n_inliers := None, n_outliers := None,
        Error_singular_cov := False, Error_memory_error := False\<rparr>)"
  by (simp add: commit_def get_outliers_OtherException)

lemma commit_success:
  "truthy (data w) \<Longrightarrow> detect_outliers lib w = Inr (y_pred, Some a) \<Longrightarrow>
   length y_pred \<le> len a \<Longrightarrow>
   commit lib w =
     (Inr (),
      w\<lparr>n_inliers := Some (length (where_eq y_pred 1)),
        n_outliers := Some (length (where_eq y_pred (- 1))),
        Error_singular_cov := False, Error_memory_error := False,
        output_summary :=
          (if where_eq y_pred 1 = [] then NoOutput else Count (length (where_eq y_pred 1))),
        Outputs_inliers :=
          Some \<lparr>domain = domain a, rows = map (\<lambda>i. rows a ! i) (where_eq y_pred 1)\<rparr>,
        Outputs_outliers :=
          Some \<lparr>domain = domain a, rows = map (\<lambda>i. rows a ! i) (where_eq y_pred (- 1))\<rparr>\<rparr>)"
  by (simp add: commit_def get_outliers_success truthy_def len_def)

lemma get_outliers_frame:
  "data (snd (get_outliers lib w)) = data w"
  "outlier_method (snd (get_outliers lib w)) = outlier_method w"
  "nu (snd (get_outliers lib w)) = nu w"
  "gamma (snd (get_outliers lib w)) = gamma w"
  "cont (snd (get_outliers lib w)) = cont w"
  "empirical_covariance (snd (get_outliers lib w)) = empirical_covariance w"
  "support_fraction (snd (get_outliers lib w)) = support_fraction w"
  "rb_cov_enabled (snd (get_outliers lib w)) = rb_cov_enabled w"
  "l_cov_enabled (snd (get_outliers lib w)) = l_cov_enabled w"
  "cont_slider_enabled (snd (get_outliers lib w)) = cont_slider_enabled w"
  "cb_emp_cov_enabled (snd (get_outliers lib w)) = cb_emp_cov_enabled w"
  "support_fraction_spin_enabled (snd (get_outliers lib w)) = support_fraction_spin_enabled w"
  "Warning_disabled_cov (snd (get_outliers lib w)) = Warning_disabled_cov w"
  "input_summary (snd (get_outliers lib w)) = input_summary w"
  "output_summary (snd (get_outliers lib w)) = output_summary w"
  "Outputs_inliers (snd (get_outliers lib w)) = Outputs_inliers w"
  "Outputs_outliers (snd (get_outliers lib w)) = Outputs_outliers w"
  by (simp_all add: get_outliers_def Let_def split: sum.splits exn.splits prod.splits)

lemma commit_frame:
  "data (snd (commit lib w)) = data w"
  "outlier_method (snd (commit lib w)) = outlier_method w"
  "nu (snd (commit lib w)) = nu w"
  "gamma (snd (commit lib w)) = gamma w"
  "cont (snd (commit lib w)) = cont w"
  "empirical_covariance (snd (commit lib w)) = empirical_covariance w"
  "support_fraction (snd (commit lib w)) = support_fraction w"
  "rb_cov_enabled (snd (commit lib w)) = rb_cov_enabled w"
  "l_cov_enabled (snd (commit lib w)) = l_cov_enabled w"
  "cont_slider_enabled (snd (commit lib w)) = cont_slider_enabled w"
  "cb_emp_cov_enabled (snd (commit lib w)) = cb_emp_cov_enabled w"
  "support_fraction_spin_enabled (snd (commit lib w)) = support_fraction_spin_enabled w"
  "Warning_disabled_cov (snd (commit lib w)) = Warning_disabled_cov w"
  "input_summary (snd (commit lib w)) = input_summary w"
proof -
  let ?w1 = "w\<lparr>n_inliers := None, n_outliers := None\<rparr>"
  obtain r w2 where rw: "get_outliers lib ?w1 = (r, w2)" by (cases "get_outliers lib ?w1")
  then have w2: "w2 = snd (get_outliers lib ?w1)" by simp
  have c: "snd (commit lib w) =
     (if truthy (data w)
      then (case r of Inl e \<Rightarrow> w2
            | Inr p \<Rightarrow> w2\<lparr>output_summary :=
                             (if truthy (fst p) then Count (len (the (fst p))) else NoOutput),
                           Outputs_inliers := fst p, Outputs_outliers := snd p\<rparr>)
      else ?w1\<lparr>output_summary := NoOutput, Outputs_inliers := None, Outputs_outliers := None\<rparr>)"
    using rw by (simp add: commit_def truthy_def split: sum.splits prod.splits)
  show "data (snd (commit lib w)) = data w"
    "outlier_method (snd (commit lib w)) = outlier_method w"
    "nu (snd (commit lib w)) = nu w"
    "gamma (snd (commit lib w)) = gamma w"
    "cont (snd (commit lib w)) = cont w"
    "empirical_covariance (snd (commit lib w)) = empirical_covariance w"
    "support_fraction (snd (commit lib w)) = support_fraction w"
    "rb_cov_enabled (snd (commit lib w)) = rb_cov_enabled w"
    "l_cov_enabled (snd (commit lib w)) = l_cov_enabled w"
    "cont_slider_enabled (snd (commit lib w)) = cont_slider_enabled w"
    "cb_emp_cov_enabled (snd (commit lib w)) = cb_emp_cov_enabled w"
    "support_fraction_spin_enabled (snd (commit lib w)) = support_fraction_spin_enabled w"
    "Warning_disabled_cov (snd (commit lib w)) = Warning_disabled_cov w"
    "input_summary (snd (commit lib w)) = input_summary w"
    unfolding c w2 by (simp_all add: get_outliers_frame split: sum.splits)
qed

lemma get_outliers_errors_exclusive:
  "\<not> (Error_singular_cov (snd (get_outliers lib w)) \<and>
      Error_memory_error (snd (get_outliers lib w)))"
  by (simp add: get_outliers_def Let_def split: sum.splits exn.splits prod.splits)

lemma commit_errors_exclusive:
  assumes "\<not> (Error_singular_cov w \<and> Error_memory_error w)"
  shows "\<not> (Error_singular_cov (snd (commit lib w)) \<and> Error_memory_error (snd (commit lib w)))"
proof (cases "truthy (data w)")
  case False
  with assms show ?thesis by (simp add: commit_no_data)
next
  case True
  let ?w1 = "w\<lparr>n_inliers := None, n_outliers := None\<rparr>"
  have "Error_singular_cov (snd (commit lib w)) = Error_singular_cov (snd (get_outliers lib ?w1))"
    "Error_memory_error (snd (commit lib w)) = Error_memory_error (snd (get_outliers lib ?w1))"
    using True by (simp_all add: commit_def split: prod.splits sum.splits)
  then show ?thesis using get_outliers_errors_exclusive [of lib ?w1] by simp
qed

subsection \<open>Controls select their method\<close>

text \<open>
  C6. Adjusting a control of a parameter group makes that group's method the active one,
  whatever the method was before: the callbacks of nu and of the kernel coefficient set
  the method to OneClassSVM, those of contamination, the support fraction and the
  empirical-support checkbox set it to Covariance. The same holds for the user's action as
  a whole, which also stores the new value.
\<close>

theorem control_selects_its_method:
  "outlier_method (nu_changed w) = OneClassSVM \<and>
   outlier_method (gamma_changed w) = OneClassSVM \<and>
   outlier_method (cont_changed w) = Covariance \<and>
   outlier_method (support_fraction_changed w) = Covariance \<and>
   outlier_method (empirical_changed w) = Covariance \<and>
   outlier_method (fire lib (MoveNu i) w) = OneClassSVM \<and> nu (fire lib (MoveNu i) w) = i \<and>
   outlier_method (fire lib (SpinGamma x) w) = OneClassSVM \<and>
     gamma (fire lib (SpinGamma x) w) = x \<and>
   outlier_method (fire lib (MoveCont i) w) = Covariance \<and> cont (fire lib (MoveCont i) w) = i \<and>
   outlier_method (fire lib (SpinSupportFraction x) w) = Covariance \<and>
     support_fraction (fire lib (SpinSupportFraction x) w) = x \<and>
   outlier_method (fire lib (ToggleEmpirical b) w) = Covariance \<and>
     empirical_covariance (fire lib (ToggleEmpirical b) w) = b"
  by (simp add: nu_changed_def gamma_changed_def cont_changed_def
      support_fraction_changed_def empirical_changed_def)

subsection \<open>Failed runs and missing input\<close>

text \<open>
  C4. When the run fails with a \<open>ValueError\<close> (the singular-covariance error) or with a
  \<open>MemoryError\<close>, \<open>commit\<close> returns normally, shows that error and not the other, sends
  \<open>None\<close> on both outputs and leaves both counts unknown. Without an input table
  (\<open>None\<close>, or a table that is false in a condition) both outputs are \<open>None\<close> and both
  counts unknown as well.
\<close>

theorem failed_run_sends_nothing:
  "(truthy (data w) \<and> detect_outliers lib w = Inl (ValueError msg) \<longrightarrow>
      fst (commit lib w) = Inr () \<and>
      Error_singular_cov (snd (commit lib w)) \<and> \<not> Error_memory_error (snd (commit lib w)) \<and>
      Outputs_inliers (snd (commit lib w)) = None \<and>
      Outputs_outliers (snd (commit lib w)) = None \<and>
      n_inliers (snd (commit lib w)) = None \<and> n_outliers (snd (commit lib w)) = None \<and>
      output_summary (snd (commit lib w)) = NoOutput) \<and>
   (truthy (data w) \<and> detect_outliers lib w = Inl MemoryError \<longrightarrow>
      fst (commit lib w) = Inr () \<and>
      Error_memory_error (snd (commit lib w)) \<and> \<not> Error_singular_cov (snd (commit lib w)) \<and>
      Outputs_inliers (snd (commit lib w)) = None \<and>
      Outputs_outliers (snd (commit lib w)) = None \<and>
      n_inliers (snd (commit lib w)) = None \<and> n_outliers (snd (commit lib w)) = None \<and>
      output_summary (snd (commit lib w)) = NoOutput) \<and>
   (\<not> truthy (data w) \<longrightarrow>
      fst (commit lib w) = Inr () \<and>
      Outputs_inliers (snd (commit lib w)) = None \<and>
      Outputs_outliers (snd (commit lib w)) = None \<and>
      n_inliers (snd (commit lib w)) = None \<and> n_outliers (snd (commit lib w)) = None \<and>
      output_summary (snd (commit lib w)) = NoOutput) \<and>
   (let w' = snd (set_data lib None w) in
      fst (set_data lib None w) = Inr () \<and>
      Outputs_inliers w' = None \<and> Outputs_outliers w' = None \<and>
      n_inliers w' = None \<and> n_outliers w' = None \<and> output_summary w' = NoOutput)"
proof -
  have a: "\<not> truthy (data (set_data_before_commit None w))"
    by (simp add: set_data_before_commit_def enable_controls_def enable_covariance_def
        clear_messages_def truthy_def)
  show ?thesis
    by (simp add: commit_ValueError commit_MemoryError commit_no_data set_data_def a Let_def)
qed

theorem failed_run_sends_nothing_witness:
  "truthy (data (default_widget\<lparr>data := Some iris3\<rparr>)) \<and>
   detect_outliers (fixed_library (Inl (ValueError ''Singular covariance matrix.'')) [] [])
     (default_widget\<lparr>data := Some iris3\<rparr>) = Inl (ValueError ''Singular covariance matrix.'') \<and>
   Error_singular_cov
     (snd (commit (fixed_library (Inl (ValueError ''Singular covariance matrix.'')) [] [])
        (default_widget\<lparr>data := Some iris3\<rparr>))) \<and>
   Outputs_inliers
     (snd (commit (fixed_library (Inl (ValueError ''Singular covariance matrix.'')) [] [])
        (default_widget\<lparr>data := Some iris3\<rparr>))) = None \<and>
   detect_outliers (fixed_library (Inl MemoryError) [] [])
     (default_widget\<lparr>data := Some iris3\<rparr>) = Inl MemoryError \<and>
   Error_memory_error
     (snd (commit (fixed_library (Inl MemoryError) [] [])
        (default_widget\<lparr>data := Some iris3\<rparr>))) \<and>
   Outputs_outliers
     (snd (commit (fixed_library (Inl MemoryError) [] [])
        (default_widget\<lparr>data := Some iris3\<rparr>))) = None \<and>
   \<not> truthy (data default_widget) \<and>
   n_inliers (snd (commit (fixed_library (Inr ()) [] []) default_widget)) = None"
proof -
  let ?w = "default_widget\<lparr>data := Some iris3\<rparr>"
  let ?sing = "fixed_library (Inl (ValueError ''Singular covariance matrix.'')) [] []"
  let ?mem = "fixed_library (Inl MemoryError) [] []"
  have t: "truthy (data ?w)"
    by (simp add: truthy_def iris3_def)
  have s: "detect_outliers ?sing ?w = Inl (ValueError ''Singular covariance matrix.'')"
    by (simp add: detect_outliers_def fixed_library_def)
  have m: "detect_outliers ?mem ?w = Inl MemoryError"
    by (simp add: detect_outliers_def fixed_library_def)
  have n: "\<not> truthy (data default_widget)"
    by (simp add: truthy_def default_widget_def init_widget_def)
  from t s m n
    failed_run_sends_nothing [of ?w ?sing "''Singular covariance matrix.''"]
    failed_run_sends_nothing [of ?w ?mem "''''"]
    failed_run_sends_nothing [of default_widget "fixed_library (Inr ()) [] []" "''''"]
  show ?thesis by blast
qed

lemma set_data_before_commit_falsy:
  "\<not> truthy d \<Longrightarrow>
   set_data_before_commit d w =
     w\<lparr>data := d,
       rb_cov_enabled := True, l_cov_enabled := True, cont_slider_enabled := True,
       cb_emp_cov_enabled := True, support_fraction_spin_enabled := True,
       Warning_disabled_cov := False, Error_singular_cov := False,
       Error_memory_error := False, input_summary := NoOutput\<rparr>"
  by (simp add: set_data_before_commit_def enable_controls_def enable_covariance_def
      clear_messages_def)

lemma set_data_falsy:
  "\<not> truthy d \<Longrightarrow>
   set_data lib d w =
     (Inr (),
      w\<lparr>data := d, n_inliers := None, n_outliers := None,
        rb_cov_enabled := True, l_cov_enabled := True, cont_slider_enabled := True,
        cb_emp_cov_enabled := True, support_fraction_spin_enabled := True,
        Warning_disabled_cov := False, Error_singular_cov := False,
        Error_memory_error := False, input_summary := NoOutput,
        output_summary := NoOutput, Outputs_inliers := None, Outputs_outliers := None\<rparr>)"
  by (simp add: set_data_def set_data_before_commit_falsy commit_no_data)

lemma get_outliers_returned_errors:
  "detect_outliers lib w = Inr r \<Longrightarrow>
   \<not> Error_singular_cov (snd (get_outliers lib w)) \<and>
   \<not> Error_memory_error (snd (get_outliers lib w))"
  by (simp add: get_outliers_def Let_def split: sum.splits prod.splits)

subsection \<open>A table without rows\<close>

text \<open>
  C9. A table with zero rows on the input is handled as \<open>None\<close> is: \<open>set_data\<close> returns
  normally, the state it leaves is the one \<open>set_data(None)\<close> leaves but for the stored
  table itself, that state does not depend on the learning library (no run is attempted),
  both outputs are sent \<open>None\<close>, both counts are unknown and both summaries are "no output".
\<close>

theorem empty_table_as_no_input:
  assumes "rows d = []"
  shows "set_data lib (Some d) w = (Inr (), (snd (set_data lib None w))\<lparr>data := Some d\<rparr>) \<and>
         set_data lib (Some d) w =
           (Inr (),
            w\<lparr>data := Some d, n_inliers := None, n_outliers := None,
              rb_cov_enabled := True, l_cov_enabled := True, cont_slider_enabled := True,
              cb_emp_cov_enabled := True, support_fraction_spin_enabled := True,
              Warning_disabled_cov := False, Error_singular_cov := False,
              Error_memory_error := False, input_summary := NoOutput,
              output_summary := NoOutput, Outputs_inliers := None,
              Outputs_outliers := None\<rparr>) \<and>
         Outputs_inliers (snd (set_data lib (Some d) w)) = None \<and>
         Outputs_outliers (snd (set_data lib (Some d) w)) = None \<and>
         n_inliers (snd (set_data lib (Some d) w)) = None \<and>
         n_outliers (snd (set_data lib (Some d) w)) = None"
proof -
  from assms have f: "\<not> truthy (Some d)" by (simp add: truthy_def)
  have n: "\<not> truthy None" by (simp add: truthy_def)
  show ?thesis
    by (simp add: set_data_falsy [OF f] set_data_falsy [OF n])
qed

theorem empty_table_as_no_input_witness:
  "rows wide0 = [] \<and>
   set_data (fixed_library (Inr ()) [1] [0]) (Some wide0) default_widget =
     (Inr (), (snd (set_data (fixed_library (Inr ()) [1] [0]) None default_widget))
                \<lparr>data := Some wide0\<rparr>) \<and>
   Outputs_inliers
     (snd (set_data (fixed_library (Inr ()) [1] [0]) (Some wide0) default_widget)) = None"
proof -
  have r: "rows wide0 = []" by (simp add: wide0_def)
  from r empty_table_as_no_input [OF r, of "fixed_library (Inr ()) [1] [0]" default_widget]
  show ?thesis by blast
qed

subsection \<open>Which exceptions are caught\<close>

text \<open>
  C7, as the code has it. \<open>_get_outliers\<close> catches by class: every \<open>ValueError\<close> raised by
  \<open>detect_outliers\<close>, whatever its message or cause, is turned into the singular-covariance
  error, every \<open>MemoryError\<close> into the out-of-memory error, and both give the result
  \<open>(None, None)\<close>; an exception of any other class leaves \<open>_get_outliers\<close> and \<open>commit\<close>
  with no error shown and the outputs as they were. The singular-covariance error is shown
  after a run only if the run raised a \<open>ValueError\<close>, the out-of-memory error only if it
  raised a \<open>MemoryError\<close>.
\<close>

theorem exceptions_caught_by_class:
  "(detect_outliers lib w = Inl (ValueError msg) \<longrightarrow>
      fst (get_outliers lib w) = Inr (None, None) \<and>
      Error_singular_cov (snd (get_outliers lib w)) \<and>
      \<not> Error_memory_error (snd (get_outliers lib w))) \<and>
   (detect_outliers lib w = Inl MemoryError \<longrightarrow>
      fst (get_outliers lib w) = Inr (None, None) \<and>
      Error_memory_error (snd (get_outliers lib w)) \<and>
      \<not> Error_singular_cov (snd (get_outliers lib w))) \<and>
   (detect_outliers lib w = Inl (OtherException c) \<longrightarrow>
      fst (get_outliers lib w) = Inl (OtherException c) \<and>
      \<not> Error_singular_cov (snd (get_outliers lib w)) \<and>
      \<not> Error_memory_error (snd (get_outliers lib w)) \<and>
      (truthy (data w) \<longrightarrow>
         fst (commit lib w) = Inl (OtherException c) \<and>
         Outputs_inliers (snd (commit lib w)) = Outputs_inliers w \<and>
         Outputs_outliers (snd (commit lib w)) = Outputs_outliers w)) \<and>
   (Error_singular_cov (snd (get_outliers lib w)) \<longrightarrow>
      (\<exists>m. detect_outliers lib w = Inl (ValueError m))) \<and>
   (Error_memory_error (snd (get_outliers lib w)) \<longrightarrow>
      detect_outliers lib w = Inl MemoryError)"
proof -
  have c1: "detect_outliers lib w = Inl (ValueError msg) \<longrightarrow>
      fst (get_outliers lib w) = Inr (None, None) \<and>
      Error_singular_cov (snd (get_outliers lib w)) \<and>
      \<not> Error_memory_error (snd (get_outliers lib w))"
    by (simp add: get_outliers_ValueError)
  have c2: "detect_outliers lib w = Inl MemoryError \<longrightarrow>
      fst (get_outliers lib w) = Inr (None, None) \<and>
      Error_memory_error (snd (get_outliers lib w)) \<and>
      \<not> Error_singular_cov (snd (get_outliers lib w))"
    by (simp add: get_outliers_MemoryError)
  have c3: "detect_outliers lib w = Inl (OtherException c) \<longrightarrow>
      fst (get_outliers lib w) = Inl (OtherException c) \<and>
      \<not> Error_singular_cov (snd (get_outliers lib w)) \<and>
      \<not> Error_memory_error (snd (get_outliers lib w)) \<and>
      (truthy (data w) \<longrightarrow>
         fst (commit lib w) = Inl (OtherException c) \<and>
         Outputs_inliers (snd (commit lib w)) = Outputs_inliers w \<and>
         Outputs_outliers (snd (commit lib w)) = Outputs_outliers w)"
    by (simp add: get_outliers_OtherException commit_OtherException)
  have c45: "(Error_singular_cov (snd (get_outliers lib w)) \<longrightarrow>
      (\<exists>m. detect_outliers lib w = Inl (ValueError m))) \<and>
    (Error_memory_error (snd (get_outliers lib w)) \<longrightarrow>
      detect_outliers lib w = Inl MemoryError)"
  proof (cases "detect_outliers lib w")
    case (Inl e)
    then show ?thesis
      by (cases e)
        (simp_all add: get_outliers_ValueError get_outliers_MemoryError
          get_outliers_OtherException)
  next
    case (Inr r)
    from get_outliers_returned_errors [OF Inr] show ?thesis by simp
  qed
  from c45 have c4: "Error_singular_cov (snd (get_outliers lib w)) \<longrightarrow>
      (\<exists>m. detect_outliers lib w = Inl (ValueError m))"
    by (rule conjunct1)
  from c45 have c5: "Error_memory_error (snd (get_outliers lib w)) \<longrightarrow>
      detect_outliers lib w = Inl MemoryError"
    by (rule conjunct2)
  show ?thesis
    by (intro conjI c1 c2 c3 c4 c5)
qed

theorem exceptions_caught_by_class_witness:
  "detect_outliers (fixed_library (Inl (OtherException ''KeyError'')) [] [])
     (default_widget\<lparr>data := Some iris3\<rparr>) = Inl (OtherException ''KeyError'') \<and>
   truthy (data (default_widget\<lparr>data := Some iris3\<rparr>)) \<and>
   fst (commit (fixed_library (Inl (OtherException ''KeyError'')) [] [])
     (default_widget\<lparr>data := Some iris3\<rparr>)) = Inl (OtherException ''KeyError'') \<and>
   detect_outliers (fixed_library (Inl (ValueError ''Singular covariance matrix.'')) [] [])
     (default_widget\<lparr>data := Some iris3\<rparr>) = Inl (ValueError ''Singular covariance matrix.'') \<and>
   Error_singular_cov
     (snd (get_outliers (fixed_library (Inl (ValueError ''Singular covariance matrix.'')) [] [])
        (default_widget\<lparr>data := Some iris3\<rparr>))) \<and>
   detect_outliers (fixed_library (Inl MemoryError) [] [])
     (default_widget\<lparr>data := Some iris3\<rparr>) = Inl MemoryError \<and>
   Error_memory_error
     (snd (get_outliers (fixed_library (Inl MemoryError) [] [])
        (default_widget\<lparr>data := Some iris3\<rparr>)))"
proof -
  let ?w = "default_widget\<lparr>data := Some iris3\<rparr>"
  let ?key = "fixed_library (Inl (OtherException ''KeyError'')) [] []"
  let ?sing = "fixed_library (Inl (ValueError ''Singular covariance matrix.'')) [] []"
  let ?mem = "fixed_library (Inl MemoryError) [] []"
  have t: "truthy (data ?w)"
    by (simp add: truthy_def iris3_def)
  have k: "detect_outliers ?key ?w = Inl (OtherException ''KeyError'')"
    by (simp add: detect_outliers_def fixed_library_def)
  have s: "detect_outliers ?sing ?w = Inl (ValueError ''Singular covariance matrix.'')"
    by (simp add: detect_outliers_def fixed_library_def)
  have m: "detect_outliers ?mem ?w = Inl MemoryError"
    by (simp add: detect_outliers_def fixed_library_def)
  from t k s m
    exceptions_caught_by_class [of ?key ?w "''''" "''KeyError''"]
    exceptions_caught_by_class [of ?sing ?w "''Singular covariance matrix.''" "''''"]
    exceptions_caught_by_class [of ?mem ?w "''''" "''''"]
  show ?thesis by blast
qed

text \<open>
  The claim as the specification states it fails: a \<open>ValueError\<close> that has nothing to do
  with the covariance matrix (here the one scikit-learn raises for a table without feature
  columns) is caught and shown as the singular-covariance error.
\<close>

theorem singular_cov_only_for_singular_counterexample:
  "detect_outliers (fixed_library (Inl (ValueError ''Found array with 0 feature(s)'')) [] [])
     (default_widget\<lparr>data := Some iris3\<rparr>) = Inl (ValueError ''Found array with 0 feature(s)'') \<and>
   fst (get_outliers (fixed_library (Inl (ValueError ''Found array with 0 feature(s)'')) [] [])
     (default_widget\<lparr>data := Some iris3\<rparr>)) = Inr (None, None) \<and>
   Error_singular_cov
     (snd (get_outliers (fixed_library (Inl (ValueError ''Found array with 0 feature(s)'')) [] [])
        (default_widget\<lparr>data := Some iris3\<rparr>)))"
  by (simp add: get_outliers_def detect_outliers_def fixed_library_def)

lemma commit_errors_of_run:
  "truthy (data w) \<Longrightarrow>
   Error_singular_cov (snd (commit lib w)) =
     Error_singular_cov (snd (get_outliers lib (w\<lparr>n_inliers := None, n_outliers := None\<rparr>)))"
  "truthy (data w) \<Longrightarrow>
   Error_memory_error (snd (commit lib w)) =
     Error_memory_error (snd (get_outliers lib (w\<lparr>n_inliers := None, n_outliers := None\<rparr>)))"
  by (simp_all add: commit_def split: prod.splits sum.splits)

lemma commit_returned_errors:
  assumes "truthy (data w)" and "detect_outliers lib w = Inr r"
  shows "\<not> Error_singular_cov (snd (commit lib w)) \<and> \<not> Error_memory_error (snd (commit lib w))"
proof -
  let ?w1 = "w\<lparr>n_inliers := None, n_outliers := None\<rparr>"
  from assms(2) have "detect_outliers lib ?w1 = Inr r" by simp
  from get_outliers_returned_errors [OF this] show ?thesis
    by (simp add: commit_errors_of_run [OF assms(1)])
qed

lemma detection_succeeds_returns:
  assumes "detection_succeeds lib w"
  shows "\<exists>r. detect_outliers lib w = Inr r"
proof (cases "detect_outliers lib w")
  case (Inl e)
  with assms show ?thesis
    by (cases e)
      (simp_all add: detection_succeeds_def get_outliers_ValueError get_outliers_MemoryError
        get_outliers_OtherException)
next
  case (Inr r)
  then show ?thesis by blast
qed

lemma set_data_before_commit_errors:
  "\<not> Error_singular_cov (set_data_before_commit d w)"
  "\<not> Error_memory_error (set_data_before_commit d w)"
  by (simp_all add: set_data_before_commit_def enable_controls_def enable_covariance_def
      clear_messages_def Let_def)

lemma fire_errors_exclusive:
  assumes "\<not> (Error_singular_cov w \<and> Error_memory_error w)"
  shows "\<not> (Error_singular_cov (fire lib ev w) \<and> Error_memory_error (fire lib ev w))"
proof (cases ev)
  case (Receive d)
  have "\<not> (Error_singular_cov (set_data_before_commit d w) \<and>
           Error_memory_error (set_data_before_commit d w))"
    by (simp add: set_data_before_commit_errors)
  from commit_errors_exclusive [OF this] show ?thesis
    by (simp add: Receive set_data_def)
next
  case PressDetect
  with commit_errors_exclusive [OF assms] show ?thesis by simp
qed (use assms in \<open>simp_all add: nu_changed_def gamma_changed_def cont_changed_def
      support_fraction_changed_def empirical_changed_def\<close>)

lemma reachable_errors_exclusive:
  "reachable lib w \<Longrightarrow> \<not> (Error_singular_cov w \<and> Error_memory_error w)"
proof (induction rule: reachable.induct)
  case (start method0 nu0 gamma0 cont0 emp0 sf0)
  show ?case by (simp add: init_widget_def)
next
  case (step w ev)
  from step.IH show ?case by (rule fire_errors_exclusive)
qed

subsection \<open>The two errors\<close>

text \<open>
  C10. \<open>_get_outliers\<close> clears both errors before it calls \<open>detect_outliers\<close>. So, whatever
  the errors were before the run: after it at most one error is shown, an error is shown
  only if this very run raised its exception, and after a run that returned labels (so
  after every successful run, also through \<open>commit\<close>) no error is shown. In every state the
  widget can reach at most one of the two errors is shown.
\<close>

theorem run_clears_both_errors:
  "\<not> (Error_singular_cov (snd (get_outliers lib w)) \<and>
      Error_memory_error (snd (get_outliers lib w))) \<and>
   (Error_singular_cov (snd (get_outliers lib w)) \<longrightarrow>
      (\<exists>m. detect_outliers lib w = Inl (ValueError m))) \<and>
   (Error_memory_error (snd (get_outliers lib w)) \<longrightarrow>
      detect_outliers lib w = Inl MemoryError) \<and>
   (detect_outliers lib w = Inr r \<longrightarrow>
      \<not> Error_singular_cov (snd (get_outliers lib w)) \<and>
      \<not> Error_memory_error (snd (get_outliers lib w))) \<and>
   (detection_succeeds lib w \<longrightarrow>
      \<not> Error_singular_cov (snd (commit lib w)) \<and>
      \<not> Error_memory_error (snd (commit lib w))) \<and>
   (reachable lib w \<longrightarrow> \<not> (Error_singular_cov w \<and> Error_memory_error w))"
proof -
  have c23: "(Error_singular_cov (snd (get_outliers lib w)) \<longrightarrow>
      (\<exists>m. detect_outliers lib w = Inl (ValueError m))) \<and>
    (Error_memory_error (snd (get_outliers lib w)) \<longrightarrow>
      detect_outliers lib w = Inl MemoryError)"
  proof (cases "detect_outliers lib w")
    case (Inl e)
    then show ?thesis
      by (cases e)
        (simp_all add: get_outliers_ValueError get_outliers_MemoryError
          get_outliers_OtherException)
  next
    case (Inr r)
    from get_outliers_returned_errors [OF Inr] show ?thesis by simp
  qed
  have c5: "detection_succeeds lib w \<longrightarrow>
      \<not> Error_singular_cov (snd (commit lib w)) \<and>
      \<not> Error_memory_error (snd (commit lib w))"
  proof
    assume s: "detection_succeeds lib w"
    then have t: "truthy (data w)" by (simp add: detection_succeeds_def)
    from detection_succeeds_returns [OF s] obtain r' where "detect_outliers lib w = Inr r'" ..
    from commit_returned_errors [OF t this]
    show "\<not> Error_singular_cov (snd (commit lib w)) \<and>
      \<not> Error_memory_error (snd (commit lib w))" .
  qed
  show ?thesis
    using get_outliers_errors_exclusive [of lib w] c23 c5
      get_outliers_returned_errors [of lib w r] reachable_errors_exclusive [of lib w]
    by blast
qed

theorem run_clears_both_errors_witness:
  "Error_singular_cov (default_widget\<lparr>data := Some iris3, Error_singular_cov := True\<rparr>) \<and>
   detect_outliers (fixed_library (Inr ()) [1, - 1, 1] [])
     (default_widget\<lparr>data := Some iris3, Error_singular_cov := True\<rparr>)
     = Inr ([1, - 1, 1], Some iris3) \<and>
   detection_succeeds (fixed_library (Inr ()) [1, - 1, 1] [])
     (default_widget\<lparr>data := Some iris3, Error_singular_cov := True\<rparr>) \<and>
   \<not> Error_singular_cov
       (snd (commit (fixed_library (Inr ()) [1, - 1, 1] [])
          (default_widget\<lparr>data := Some iris3, Error_singular_cov := True\<rparr>))) \<and>
   \<not> Error_singular_cov
       (snd (get_outliers (fixed_library (Inr ()) [1, - 1, 1] [])
          (default_widget\<lparr>data := Some iris3, Error_singular_cov := True\<rparr>))) \<and>
   reachable (fixed_library (Inl MemoryError) [] [])
     (fire (fixed_library (Inl MemoryError) [] []) (Receive (Some iris3)) default_widget) \<and>
   Error_memory_error
     (fire (fixed_library (Inl MemoryError) [] []) (Receive (Some iris3)) default_widget) \<and>
   \<not> Error_singular_cov
     (fire (fixed_library (Inl MemoryError) [] []) (Receive (Some iris3)) default_widget)"
proof -
  let ?w = "default_widget\<lparr>data := Some iris3, Error_singular_cov := True\<rparr>"
  let ?ok = "fixed_library (Inr ()) [1, - 1, 1] []"
  let ?mem = "fixed_library (Inl MemoryError) [] []"
  let ?v = "fire ?mem (Receive (Some iris3)) default_widget"
  have e: "Error_singular_cov ?w" by simp
  have d: "detect_outliers ?ok ?w = Inr ([1, - 1, 1], Some iris3)"
    by (simp add: detect_outliers_def fixed_library_def amended_data_def default_widget_def
        init_widget_def OneClassSVM_def Covariance_def)
  have l: "length [1, - 1, 1 :: int] \<le> len iris3"
    by (simp add: len_def iris3_def)
  have t: "truthy (data ?w)"
    by (simp add: truthy_def iris3_def)
  have s: "detection_succeeds ?ok ?w"
    unfolding detection_succeeds_def get_outliers_success [OF d l] using t by simp
  have "reachable ?mem default_widget"
    unfolding default_widget_def by (rule reachable.start)
  then have r: "reachable ?mem ?v"
    by (rule reachable.step) simp
  have m: "Error_memory_error ?v"
    by (simp add: set_data_def set_data_before_commit_def enable_controls_def
        enable_covariance_def clear_messages_def Let_def truthy_def iris3_def MAX_FEATURES_def
        commit_def get_outliers_def detect_outliers_def fixed_library_def)
  from e d s r m
    run_clears_both_errors [of ?ok ?w "([1, - 1, 1], Some iris3)"]
    run_clears_both_errors [of ?mem ?v "([], None)"]
  show ?thesis by blast
qed

lemma set_data_before_commit_guard_inv: "guard_inv (set_data_before_commit d w)"
  by (simp add: guard_inv_def set_data_before_commit_def enable_controls_def
      enable_covariance_def clear_messages_def Let_def)

lemma commit_guard_inv: "guard_inv (snd (commit lib w)) = guard_inv w"
  by (simp add: guard_inv_def commit_frame)

lemma fire_guard_inv:
  assumes "guard_inv w" and "possible ev w"
  shows "guard_inv (fire lib ev w)"
proof (cases ev)
  case (Receive d)
  then show ?thesis
    by (simp add: set_data_def commit_guard_inv set_data_before_commit_guard_inv)
next
  case PressDetect
  with assms(1) show ?thesis by (simp add: commit_guard_inv)
next
  case (MoveNu v)
  with assms(1) show ?thesis by (simp add: guard_inv_def nu_changed_def)
next
  case (SpinGamma v)
  with assms(1) show ?thesis by (simp add: guard_inv_def gamma_changed_def)
next
  case (MoveCont v)
  with assms show ?thesis
    by (simp add: guard_inv_def cont_changed_def split: if_splits)
next
  case (ToggleEmpirical b)
  with assms show ?thesis
    by (simp add: guard_inv_def empirical_changed_def split: if_splits)
next
  case (SpinSupportFraction v)
  with assms show ?thesis
    by (simp add: guard_inv_def support_fraction_changed_def split: if_splits)
next
  case (PickMethod m)
  with assms show ?thesis
    by (auto simp: guard_inv_def split: if_splits)
qed

lemma reachable_guard_inv: "reachable lib w \<Longrightarrow> guard_inv w"
proof (induction rule: reachable.induct)
  case (start method0 nu0 gamma0 cont0 emp0 sf0)
  show ?case by (simp add: guard_inv_def init_widget_def truthy_def)
next
  case (step w ev)
  then show ?case by (simp add: fire_guard_inv)
qed

lemma set_data_guard_fields:
  "outlier_method (snd (set_data lib d w)) = outlier_method (set_data_before_commit d w)"
  "rb_cov_enabled (snd (set_data lib d w)) = rb_cov_enabled (set_data_before_commit d w)"
  "l_cov_enabled (snd (set_data lib d w)) = l_cov_enabled (set_data_before_commit d w)"
  "cont_slider_enabled (snd (set_data lib d w)) =
     cont_slider_enabled (set_data_before_commit d w)"
  "cb_emp_cov_enabled (snd (set_data lib d w)) =
     cb_emp_cov_enabled (set_data_before_commit d w)"
  "support_fraction_spin_enabled (snd (set_data lib d w)) =
     support_fraction_spin_enabled (set_data_before_commit d w)"
  "Warning_disabled_cov (snd (set_data lib d w)) =
     Warning_disabled_cov (set_data_before_commit d w)"
  by (simp_all add: set_data_def commit_frame)

lemma set_data_before_commit_wide:
  assumes "rows d \<noteq> []" and "MAX_FEATURES < length (attributes (domain d))"
  shows "outlier_method (set_data_before_commit (Some d) w) = OneClassSVM"
    "\<not> rb_cov_enabled (set_data_before_commit (Some d) w)"
    "\<not> l_cov_enabled (set_data_before_commit (Some d) w)"
    "\<not> cont_slider_enabled (set_data_before_commit (Some d) w)"
    "\<not> cb_emp_cov_enabled (set_data_before_commit (Some d) w)"
    "\<not> support_fraction_spin_enabled (set_data_before_commit (Some d) w)"
    "Warning_disabled_cov (set_data_before_commit (Some d) w)"
  using assms
  by (simp_all add: set_data_before_commit_def enable_controls_def enable_covariance_def
      clear_messages_def Let_def truthy_def)

lemma set_data_before_commit_narrow:
  assumes "rows d = [] \<or> length (attributes (domain d)) \<le> MAX_FEATURES"
  shows "outlier_method (set_data_before_commit (Some d) w) = outlier_method w"
    "rb_cov_enabled (set_data_before_commit (Some d) w)"
    "l_cov_enabled (set_data_before_commit (Some d) w)"
    "cont_slider_enabled (set_data_before_commit (Some d) w)"
    "cb_emp_cov_enabled (set_data_before_commit (Some d) w)"
    "support_fraction_spin_enabled (set_data_before_commit (Some d) w)"
    "\<not> Warning_disabled_cov (set_data_before_commit (Some d) w)"
  using assms
  by (auto simp: set_data_before_commit_def enable_controls_def enable_covariance_def
      clear_messages_def Let_def truthy_def)

subsection \<open>The feature-count guard\<close>

text \<open>
  C2, as the code has it. When a table with at least one row and more than 1500 feature
  columns arrives, the method is forced to OneClassSVM, the five covariance controls are
  disabled and the warning is shown. When a table with at most 1500 feature columns
  arrives, and also when a table without rows arrives, whatever its width, the five
  controls are enabled and the warning is not shown. In every state the widget can
  reach, the warning is shown exactly when the stored table has rows and more than 1500
  feature columns; while it is shown the method is OneClassSVM, the five controls are
  disabled, and no action that would select Covariance is possible.
\<close>

theorem feature_guard:
  "(rows d \<noteq> [] \<and> 1500 < length (attributes (domain d)) \<longrightarrow>
      outlier_method (snd (set_data lib (Some d) w)) = OneClassSVM \<and>
      \<not> rb_cov_enabled (snd (set_data lib (Some d) w)) \<and>
      \<not> l_cov_enabled (snd (set_data lib (Some d) w)) \<and>
      \<not> cont_slider_enabled (snd (set_data lib (Some d) w)) \<and>
      \<not> cb_emp_cov_enabled (snd (set_data lib (Some d) w)) \<and>
      \<not> support_fraction_spin_enabled (snd (set_data lib (Some d) w)) \<and>
      Warning_disabled_cov (snd (set_data lib (Some d) w))) \<and>
   (rows d = [] \<or> length (attributes (domain d)) \<le> 1500 \<longrightarrow>
      rb_cov_enabled (snd (set_data lib (Some d) w)) \<and>
      l_cov_enabled (snd (set_data lib (Some d) w)) \<and>
      cont_slider_enabled (snd (set_data lib (Some d) w)) \<and>
      cb_emp_cov_enabled (snd (set_data lib (Some d) w)) \<and>
      support_fraction_spin_enabled (snd (set_data lib (Some d) w)) \<and>
      \<not> Warning_disabled_cov (snd (set_data lib (Some d) w))) \<and>
   (reachable lib w \<longrightarrow>
      (Warning_disabled_cov w \<longleftrightarrow>
         (\<exists>t. data w = Some t \<and> rows t \<noteq> [] \<and> 1500 < length (attributes (domain t)))) \<and>
      (Warning_disabled_cov w \<longrightarrow>
         outlier_method w = OneClassSVM \<and>
         \<not> rb_cov_enabled w \<and> \<not> l_cov_enabled w \<and> \<not> cont_slider_enabled w \<and>
         \<not> cb_emp_cov_enabled w \<and> \<not> support_fraction_spin_enabled w \<and>
         \<not> possible (PickMethod Covariance) w \<and> \<not> possible (MoveCont i) w \<and>
         \<not> possible (ToggleEmpirical b) w \<and> \<not> possible (SpinSupportFraction x) w) \<and>
      (\<not> Warning_disabled_cov w \<longrightarrow>
         rb_cov_enabled w \<and> l_cov_enabled w \<and> cont_slider_enabled w \<and>
         cb_emp_cov_enabled w \<and> support_fraction_spin_enabled w))"
proof -
  have wide: "rows d \<noteq> [] \<and> 1500 < length (attributes (domain d)) \<longrightarrow>
      outlier_method (snd (set_data lib (Some d) w)) = OneClassSVM \<and>
      \<not> rb_cov_enabled (snd (set_data lib (Some d) w)) \<and>
      \<not> l_cov_enabled (snd (set_data lib (Some d) w)) \<and>
      \<not> cont_slider_enabled (snd (set_data lib (Some d) w)) \<and>
      \<not> cb_emp_cov_enabled (snd (set_data lib (Some d) w)) \<and>
      \<not> support_fraction_spin_enabled (snd (set_data lib (Some d) w)) \<and>
      Warning_disabled_cov (snd (set_data lib (Some d) w))"
    by (simp add: set_data_guard_fields set_data_before_commit_wide MAX_FEATURES_def)
  have narrow: "rows d = [] \<or> length (attributes (domain d)) \<le> 1500 \<longrightarrow>
      rb_cov_enabled (snd (set_data lib (Some d) w)) \<and>
      l_cov_enabled (snd (set_data lib (Some d) w)) \<and>
      cont_slider_enabled (snd (set_data lib (Some d) w)) \<and>
      cb_emp_cov_enabled (snd (set_data lib (Some d) w)) \<and>
      support_fraction_spin_enabled (snd (set_data lib (Some d) w)) \<and>
      \<not> Warning_disabled_cov (snd (set_data lib (Some d) w))"
    by (simp add: set_data_guard_fields set_data_before_commit_narrow MAX_FEATURES_def)
  have inv: "reachable lib w \<longrightarrow>
      (Warning_disabled_cov w \<longleftrightarrow>
         (\<exists>t. data w = Some t \<and> rows t \<noteq> [] \<and> 1500 < length (attributes (domain t)))) \<and>
      (Warning_disabled_cov w \<longrightarrow>
         outlier_method w = OneClassSVM \<and>
         \<not> rb_cov_enabled w \<and> \<not> l_cov_enabled w \<and> \<not> cont_slider_enabled w \<and>
         \<not> cb_emp_cov_enabled w \<and> \<not> support_fraction_spin_enabled w \<and>
         \<not> possible (PickMethod Covariance) w \<and> \<not> possible (MoveCont i) w \<and>
         \<not> possible (ToggleEmpirical b) w \<and> \<not> possible (SpinSupportFraction x) w) \<and>
      (\<not> Warning_disabled_cov w \<longrightarrow>
         rb_cov_enabled w \<and> l_cov_enabled w \<and> cont_slider_enabled w \<and>
         cb_emp_cov_enabled w \<and> support_fraction_spin_enabled w)"
  proof
    assume "reachable lib w"
    then have g: "guard_inv w" by (rule reachable_guard_inv)
    have t: "(truthy (data w) \<and> MAX_FEATURES < length (attributes (domain (the (data w))))) =
        (\<exists>t. data w = Some t \<and> rows t \<noteq> [] \<and> 1500 < length (attributes (domain t)))"
      by (cases "data w") (simp_all add: truthy_def MAX_FEATURES_def)
    from g show "(Warning_disabled_cov w \<longleftrightarrow>
         (\<exists>t. data w = Some t \<and> rows t \<noteq> [] \<and> 1500 < length (attributes (domain t)))) \<and>
      (Warning_disabled_cov w \<longrightarrow>
         outlier_method w = OneClassSVM \<and>
         \<not> rb_cov_enabled w \<and> \<not> l_cov_enabled w \<and> \<not> cont_slider_enabled w \<and>
         \<not> cb_emp_cov_enabled w \<and> \<not> support_fraction_spin_enabled w \<and>
         \<not> possible (PickMethod Covariance) w \<and> \<not> possible (MoveCont i) w \<and>
         \<not> possible (ToggleEmpirical b) w \<and> \<not> possible (SpinSupportFraction x) w) \<and>
      (\<not> Warning_disabled_cov w \<longrightarrow>
         rb_cov_enabled w \<and> l_cov_enabled w \<and> cont_slider_enabled w \<and>
         cb_emp_cov_enabled w \<and> support_fraction_spin_enabled w)"
      unfolding guard_inv_def t
      by (simp add: OneClassSVM_def Covariance_def split: if_splits)
  qed
  show ?thesis by (intro conjI wide narrow inv)
qed

theorem feature_guard_witness:
  "rows wide1 \<noteq> [] \<and> 1500 < length (attributes (domain wide1)) \<and>
   outlier_method
     (snd (set_data (fixed_library (Inr ()) [1] [0]) (Some wide1)
        (init_widget Covariance 50 (1 / 100) 10 False 1))) = OneClassSVM \<and>
   \<not> cont_slider_enabled
     (snd (set_data (fixed_library (Inr ()) [1] [0]) (Some wide1)
        (init_widget Covariance 50 (1 / 100) 10 False 1))) \<and>
   length (attributes (domain iris3)) \<le> 1500 \<and>
   cont_slider_enabled
     (snd (set_data (fixed_library (Inr ()) [1] [0]) (Some iris3)
        (init_widget Covariance 50 (1 / 100) 10 False 1))) \<and>
   reachable (fixed_library (Inr ()) [1] [0])
     (fire (fixed_library (Inr ()) [1] [0]) (Receive (Some wide1))
        (init_widget Covariance 50 (1 / 100) 10 False 1)) \<and>
   Warning_disabled_cov
     (fire (fixed_library (Inr ()) [1] [0]) (Receive (Some wide1))
        (init_widget Covariance 50 (1 / 100) 10 False 1)) \<and>
   \<not> possible (PickMethod Covariance)
     (fire (fixed_library (Inr ()) [1] [0]) (Receive (Some wide1))
        (init_widget Covariance 50 (1 / 100) 10 False 1))"
proof -
  let ?lib = "fixed_library (Inr ()) [1] [0]"
  let ?w = "init_widget Covariance 50 (1 / 100) 10 False 1"
  let ?v = "fire ?lib (Receive (Some wide1)) ?w"
  have r1: "rows wide1 \<noteq> []" by (simp add: wide1_def)
  have a1: "1500 < length (attributes (domain wide1))"
    by (simp add: wide1_def wide_domain_def)
  have a3: "length (attributes (domain iris3)) \<le> 1500" by (simp add: iris3_def)
  have "reachable ?lib ?w" by (rule reachable.start)
  then have re: "reachable ?lib ?v" by (rule reachable.step) simp
  have v: "?v = snd (set_data ?lib (Some wide1) ?w)" by simp
  from r1 a1 a3 re
    feature_guard [of wide1 ?lib ?w]
    feature_guard [of iris3 ?lib ?w]
    feature_guard [of wide1 ?lib ?v]
  show ?thesis unfolding v by blast
qed

text \<open>
  The claim as the specification states it fails for a table that has more than 1500
  feature columns and no row: a table without rows is false in the condition of
  \<open>enable_controls\<close>, so the method stays Covariance, the controls stay enabled and no
  warning is shown.
\<close>

theorem feature_guard_every_dataset_counterexample:
  "1500 < length (attributes (domain wide0)) \<and>
   outlier_method
     (snd (set_data (fixed_library (Inr ()) [1] [0]) (Some wide0)
        (init_widget Covariance 50 (1 / 100) 10 False 1))) = Covariance \<and>
   rb_cov_enabled
     (snd (set_data (fixed_library (Inr ()) [1] [0]) (Some wide0)
        (init_widget Covariance 50 (1 / 100) 10 False 1))) \<and>
   cont_slider_enabled
     (snd (set_data (fixed_library (Inr ()) [1] [0]) (Some wide0)
        (init_widget Covariance 50 (1 / 100) 10 False 1))) \<and>
   \<not> Warning_disabled_cov
     (snd (set_data (fixed_library (Inr ()) [1] [0]) (Some wide0)
        (init_widget Covariance 50 (1 / 100) 10 False 1)))"
proof -
  have f: "\<not> truthy (Some wide0)" by (simp add: truthy_def wide0_def)
  have a: "1500 < length (attributes (domain wide0))"
    by (simp add: wide0_def wide_domain_def)
  show ?thesis
    by (simp add: set_data_falsy [OF f] a) (simp add: init_widget_def)
qed

lemma getitem_len: "getitem t inds = Inr r \<Longrightarrow> len r = length inds"
  by (auto simp: getitem_def len_def split: option.splits if_splits)

lemma detection_succeeds_counts:
  assumes "detection_succeeds lib w"
  shows "\<exists>y am. detect_outliers lib w = Inr (y, am) \<and>
           n_inliers (snd (commit lib w)) = Some (length (where_eq y 1)) \<and>
           n_outliers (snd (commit lib w)) = Some (length (where_eq y (- 1)))"
proof -
  from detection_succeeds_returns [OF assms] obtain r where "detect_outliers lib w = Inr r" ..
  then obtain y am where d: "detect_outliers lib w = Inr (y, am)" by (cases r) simp
  from assms have t: "truthy (data w)" by (simp add: detection_succeeds_def)
  from assms d obtain i ou where
    gi: "getitem am (where_eq y 1) = Inr i" and go: "getitem am (where_eq y (- 1)) = Inr ou"
    by (auto simp: detection_succeeds_def get_outliers_def Let_def split: sum.splits)
  let ?w1 = "w\<lparr>n_inliers := None, n_outliers := None\<rparr>"
  have d1: "detect_outliers lib ?w1 = Inr (y, am)" using d by simp
  have g: "get_outliers lib ?w1 =
      (Inr (Some i, Some ou),
       ?w1\<lparr>Error_singular_cov := False, Error_memory_error := False,
           n_inliers := Some (len i), n_outliers := Some (len ou)\<rparr>)"
    unfolding get_outliers_def Let_def detect_outliers_frame d by (simp add: gi go)
  have "n_inliers (snd (commit lib w)) = Some (len i)"
    "n_outliers (snd (commit lib w)) = Some (len ou)"
    using t by (simp_all add: commit_def g)
  with d getitem_len [OF gi] getitem_len [OF go] show ?thesis by simp
qed

lemma commit_counts_unknown:
  assumes "\<not> detection_succeeds lib w"
  shows "n_inliers (snd (commit lib w)) = None \<and> n_outliers (snd (commit lib w)) = None"
proof (cases "truthy (data w)")
  case False
  then show ?thesis by (simp add: commit_no_data)
next
  case True
  show ?thesis
  proof (cases "detect_outliers lib w")
    case (Inl e)
    with True show ?thesis
      by (cases e) (simp_all add: commit_ValueError commit_MemoryError commit_OtherException)
  next
    case (Inr r)
    obtain y am where r: "r = (y, am)" by (cases r)
    let ?w1 = "w\<lparr>n_inliers := None, n_outliers := None\<rparr>"
    from assms True Inr r
    have bad: "(\<exists>e. getitem am (where_eq y 1) = Inl e) \<or>
               (\<exists>e. getitem am (where_eq y (- 1)) = Inl e)"
      by (auto simp: detection_succeeds_def get_outliers_def Let_def split: sum.splits)
    have g: "\<exists>e. get_outliers lib ?w1 =
        (Inl e, ?w1\<lparr>Error_singular_cov := False, Error_memory_error := False\<rparr>)"
      unfolding get_outliers_def Let_def detect_outliers_frame Inr r
      using bad by (auto split: sum.splits)
    then obtain e where "get_outliers lib ?w1 =
        (Inl e, ?w1\<lparr>Error_singular_cov := False, Error_memory_error := False\<rparr>)" ..
    with True show ?thesis by (simp add: commit_def)
  qed
qed

lemma fire_counts_unknown:
  assumes "n_inliers w = None \<and> n_outliers w = None" and "\<not> run_succeeds lib ev w"
  shows "n_inliers (fire lib ev w) = None \<and> n_outliers (fire lib ev w) = None"
proof (cases ev)
  case (Receive d)
  with assms(2) have "\<not> detection_succeeds lib (set_data_before_commit d w)"
    by (simp add: run_succeeds_def)
  from commit_counts_unknown [OF this] show ?thesis
    by (simp add: Receive set_data_def)
next
  case PressDetect
  with assms(2) have "\<not> detection_succeeds lib w"
    by (simp add: run_succeeds_def)
  from commit_counts_unknown [OF this] show ?thesis
    by (simp add: PressDetect)
qed (use assms(1) in \<open>simp_all add: nu_changed_def gamma_changed_def cont_changed_def
      support_fraction_changed_def empirical_changed_def\<close>)

lemma no_success_yet_counts_unknown:
  "no_success_yet lib w \<Longrightarrow> n_inliers w = None \<and> n_outliers w = None"
proof (induction rule: no_success_yet.induct)
  case (fresh method0 nu0 gamma0 cont0 emp0 sf0)
  show ?case by (simp add: init_widget_def)
next
  case (later w ev)
  from later.IH later.hyps(3) show ?case by (rule fire_counts_unknown)
qed

lemma send_report_unknown:
  "n_outliers w = None \<or> n_inliers w = None \<Longrightarrow> send_report w = Inr []"
  by (simp add: send_report_def)

lemma send_report_known:
  "n_inliers w = Some i \<Longrightarrow> n_outliers w = Some ou \<Longrightarrow> data w = Some d \<Longrightarrow>
   send_report w =
     Inr [(''Data'',
           [(''Input instances'', RInt (int (len d))),
            (''Inliers'', RInt (int i)),
            (''Outliers'', RInt (int ou))]),
          (if outlier_method w = OneClassSVM
           then (''Detection'',
                 [(''Detection method'', RStr ''One class SVM with non-linear kernel (RBF)''),
                  (''Regularization (nu)'', RInt (nu w)),
                  (''Kernel coefficient'', RFloat (gamma w))])
           else (''Detection'',
                 [(''Detection method'', RStr ''Covariance estimator''),
                  (''Contamination'', RInt (cont w)),
                  (''Support fraction'', RFloat (support_fraction w))]))]"
  by (simp add: send_report_def OneClassSVM_def)

subsection \<open>The report\<close>

text \<open>
  C8. \<open>send_report\<close> makes no call of \<open>report_items\<close> while a count is unknown: in every
  state reached without a successful run so far, after \<open>commit\<close> without an input table,
  after \<open>set_data(None)\<close>, and after a run that failed (with a caught or an uncaught
  exception). After \<open>commit\<close> with a successful run it reports, under "Data", the number of
  input rows, of inliers (the labels equal to 1) and of outliers (the labels equal to -1),
  and under "Detection" the method's name with nu and the kernel coefficient for
  OneClassSVM, with contamination and the support fraction for Covariance.
\<close>

theorem report_only_after_success:
  "(n_outliers w = None \<or> n_inliers w = None \<longrightarrow> send_report w = Inr []) \<and>
   (no_success_yet lib w \<longrightarrow> send_report w = Inr []) \<and>
   (\<not> truthy (data w) \<longrightarrow> send_report (snd (commit lib w)) = Inr []) \<and>
   send_report (snd (set_data lib None w)) = Inr [] \<and>
   (detect_outliers lib w = Inl e \<longrightarrow> send_report (snd (commit lib w)) = Inr []) \<and>
   (\<not> detection_succeeds lib w \<longrightarrow> send_report (snd (commit lib w)) = Inr []) \<and>
   (detection_succeeds lib w \<and> data w = Some d \<longrightarrow>
      (\<exists>y_pred amended.
         detect_outliers lib w = Inr (y_pred, amended) \<and>
         send_report (snd (commit lib w)) =
           Inr [(''Data'',
                 [(''Input instances'', RInt (int (length (rows d)))),
                  (''Inliers'', RInt (int (length (filter (\<lambda>l. l = 1) y_pred)))),
                  (''Outliers'', RInt (int (length (filter (\<lambda>l. l = - 1) y_pred))))]),
                (if outlier_method w = OneClassSVM
                 then (''Detection'',
                       [(''Detection method'',
                           RStr ''One class SVM with non-linear kernel (RBF)''),
                        (''Regularization (nu)'', RInt (nu w)),
                        (''Kernel coefficient'', RFloat (gamma w))])
                 else (''Detection'',
                       [(''Detection method'', RStr ''Covariance estimator''),
                        (''Contamination'', RInt (cont w)),
                        (''Support fraction'', RFloat (support_fraction w))]))]))"
proof -
  have c1: "n_outliers w = None \<or> n_inliers w = None \<longrightarrow> send_report w = Inr []"
    by (simp add: send_report_unknown)
  have c2: "no_success_yet lib w \<longrightarrow> send_report w = Inr []"
    using no_success_yet_counts_unknown [of lib w] by (simp add: send_report_unknown)
  have c6: "\<not> detection_succeeds lib w \<longrightarrow> send_report (snd (commit lib w)) = Inr []"
    using commit_counts_unknown [of lib w] by (simp add: send_report_unknown)
  have c3: "\<not> truthy (data w) \<longrightarrow> send_report (snd (commit lib w)) = Inr []"
    using c6 by (simp add: detection_succeeds_def)
  have "\<not> detection_succeeds lib (set_data_before_commit None w)"
    by (simp add: detection_succeeds_def set_data_before_commit_falsy truthy_def)
  from commit_counts_unknown [OF this]
  have c4: "send_report (snd (set_data lib None w)) = Inr []"
    by (simp add: set_data_def send_report_unknown)
  have c5: "detect_outliers lib w = Inl e \<longrightarrow> send_report (snd (commit lib w)) = Inr []"
    using c6 detection_succeeds_returns [of lib w] by auto
  have c7: "detection_succeeds lib w \<and> data w = Some d \<longrightarrow>
      (\<exists>y_pred amended.
         detect_outliers lib w = Inr (y_pred, amended) \<and>
         send_report (snd (commit lib w)) =
           Inr [(''Data'',
                 [(''Input instances'', RInt (int (length (rows d)))),
                  (''Inliers'', RInt (int (length (filter (\<lambda>l. l = 1) y_pred)))),
                  (''Outliers'', RInt (int (length (filter (\<lambda>l. l = - 1) y_pred))))]),
                (if outlier_method w = OneClassSVM
                 then (''Detection'',
                       [(''Detection method'',
                           RStr ''One class SVM with non-linear kernel (RBF)''),
                        (''Regularization (nu)'', RInt (nu w)),
                        (''Kernel coefficient'', RFloat (gamma w))])
                 else (''Detection'',
                       [(''Detection method'', RStr ''Covariance estimator''),
                        (''Contamination'', RInt (cont w)),
                        (''Support fraction'', RFloat (support_fraction w))]))])"
  proof
    assume a: "detection_succeeds lib w \<and> data w = Some d"
    then have s: "detection_succeeds lib w" and d: "data w = Some d" by simp_all
    from detection_succeeds_counts [OF s] obtain y am where
      y: "detect_outliers lib w = Inr (y, am)" and
      i: "n_inliers (snd (commit lib w)) = Some (length (where_eq y 1))" and
      ou: "n_outliers (snd (commit lib w)) = Some (length (where_eq y (- 1)))"
      by blast
    from d have d': "data (snd (commit lib w)) = Some d" by (simp add: commit_frame)
    from send_report_known [OF i ou d'] y
    show "\<exists>y_pred amended.
         detect_outliers lib w = Inr (y_pred, amended) \<and>
         send_report (snd (commit lib w)) =
           Inr [(''Data'',
                 [(''Input instances'', RInt (int (length (rows d)))),
                  (''Inliers'', RInt (int (length (filter (\<lambda>l. l = 1) y_pred)))),
                  (''Outliers'', RInt (int (length (filter (\<lambda>l. l = - 1) y_pred))))]),
                (if outlier_method w = OneClassSVM
                 then (''Detection'',
                       [(''Detection method'',
                           RStr ''One class SVM with non-linear kernel (RBF)''),
                        (''Regularization (nu)'', RInt (nu w)),
                        (''Kernel coefficient'', RFloat (gamma w))])
                 else (''Detection'',
                       [(''Detection method'', RStr ''Covariance estimator''),
                        (''Contamination'', RInt (cont w)),
                        (''Support fraction'', RFloat (support_fraction w))]))]"
      by (simp add: commit_frame length_where_eq len_def)
  qed
  show ?thesis by (intro conjI c1 c2 c3 c4 c5 c6 c7)
qed

theorem report_only_after_success_witness:
  "detection_succeeds (fixed_library (Inr ()) [1, - 1, 1] [1 / 2, 2, 1])
     (default_widget\<lparr>data := Some iris3, outlier_method := Covariance\<rparr>) \<and>
   send_report
     (snd (commit (fixed_library (Inr ()) [1, - 1, 1] [1 / 2, 2, 1])
        (default_widget\<lparr>data := Some iris3, outlier_method := Covariance\<rparr>))) =
     Inr [(''Data'',
           [(''Input instances'', RInt 3), (''Inliers'', RInt 2), (''Outliers'', RInt 1)]),
          (''Detection'',
           [(''Detection method'', RStr ''Covariance estimator''),
            (''Contamination'', RInt 10), (''Support fraction'', RFloat 1)])] \<and>
   no_success_yet (fixed_library (Inl MemoryError) [] [])
     (fire (fixed_library (Inl MemoryError) [] []) (Receive (Some iris3)) default_widget) \<and>
   send_report
     (fire (fixed_library (Inl MemoryError) [] []) (Receive (Some iris3)) default_widget)
     = Inr [] \<and>
   \<not> truthy (data default_widget) \<and>
   send_report (snd (commit (fixed_library (Inr ()) [] []) default_widget)) = Inr []"
proof -
  let ?w = "default_widget\<lparr>data := Some iris3, outlier_method := Covariance\<rparr>"
  let ?ok = "fixed_library (Inr ()) [1, - 1, 1] [1 / 2, 2, 1]"
  let ?mem = "fixed_library (Inl MemoryError) [] []"
  let ?v = "fire ?mem (Receive (Some iris3)) default_widget"
  let ?a = "\<lparr>domain = \<lparr>attributes = attributes (domain iris3),
                class_vars = class_vars (domain iris3),
                metas = metas (domain iris3) @ [ContinuousVariable ''Mahalanobis'']\<rparr>,
              rows = map2 (\<lambda>r v. r\<lparr>row_metas := row_metas r @ [Num v]\<rparr>)
                       (rows iris3) [1 / 2, 2, 1]\<rparr>"
  have dw: "data ?w = Some iris3" by simp
  have t: "truthy (data ?w)" by (simp add: truthy_def iris3_def)
  have d: "detect_outliers ?ok ?w = Inr ([1, - 1, 1], Some ?a)"
    by (simp add: detect_outliers_def fixed_library_def amended_data_def len_def iris3_def)
  have l: "length [1, - 1, 1 :: int] \<le> len ?a" by (simp add: len_def iris3_def)
  have s: "detection_succeeds ?ok ?w"
    unfolding detection_succeeds_def get_outliers_success [OF d l] using t by simp
  have m: "\<not> run_succeeds ?mem (Receive (Some iris3)) default_widget"
    by (simp add: run_succeeds_def detection_succeeds_def get_outliers_def
        detect_outliers_def fixed_library_def set_data_before_commit_def enable_controls_def
        enable_covariance_def clear_messages_def Let_def truthy_def iris3_def
        MAX_FEATURES_def)
  have "no_success_yet ?mem default_widget"
    unfolding default_widget_def by (rule no_success_yet.fresh)
  then have n: "no_success_yet ?mem ?v"
    by (rule no_success_yet.later) (simp, rule m)
  have f: "\<not> truthy (data default_widget)"
    by (simp add: truthy_def default_widget_def init_widget_def)
  have om: "Covariance \<noteq> OneClassSVM"
    by (simp add: OneClassSVM_def Covariance_def)
  have vals: "cont default_widget = 10" "support_fraction default_widget = 1"
    "length (rows iris3) = 3"
    by (simp_all add: default_widget_def init_widget_def iris3_def)
  from report_only_after_success [of ?w ?ok MemoryError iris3] s dw d
  have "send_report (snd (commit ?ok ?w)) =
     Inr [(''Data'',
           [(''Input instances'', RInt 3), (''Inliers'', RInt 2), (''Outliers'', RInt 1)]),
          (''Detection'',
           [(''Detection method'', RStr ''Covariance estimator''),
            (''Contamination'', RInt 10), (''Support fraction'', RFloat 1)])]"
    by (simp add: om vals)
  with s n f
    report_only_after_success [of ?v ?mem MemoryError iris3]
    report_only_after_success [of default_widget "fixed_library (Inr ()) [] []" MemoryError iris3]
  show ?thesis by blast
qed

lemma amended_data_Covariance:
  assumes "outlier_method w = Covariance" and "data w = Some d"
    and "amended_data lib w model = Inr amended"
  shows "\<exists>mahal. mahalanobis lib model (table_X d) = Inr mahal \<and>
           length mahal = length (rows d) \<and>
           amended = Some \<lparr>domain = \<lparr>attributes = attributes (domain d),
                                       class_vars = class_vars (domain d),
                                       metas = metas (domain d) @
                                               [ContinuousVariable ''Mahalanobis'']\<rparr>,
                            rows = map2 (\<lambda>r v. r\<lparr>row_metas := row_metas r @ [Num v]\<rparr>)
                                     (rows d) mahal\<rparr>"
  using assms
  by (auto simp: amended_data_def len_def Let_def split: sum.splits if_splits)

lemma amended_data_other:
  "outlier_method w \<noteq> Covariance \<Longrightarrow> amended_data lib w model = Inr (data w)"
  by (simp add: amended_data_def)

lemma detect_outliers_returns:
  assumes "detect_outliers lib w = Inr (y_pred, amended)"
  shows "\<exists>d model. data w = Some d \<and> fit lib (make_learner w) d = Inr model \<and>
           predict lib model d = Inr y_pred \<and> amended_data lib w model = Inr amended"
  using assms
  by (auto simp: detect_outliers_def Let_def split: option.splits sum.splits)

lemma detect_outliers_fit_raises:
  "data w = Some d \<Longrightarrow> fit lib (make_learner w) d = Inl e \<Longrightarrow> detect_outliers lib w = Inl e"
  by (simp add: detect_outliers_def)

lemma detect_outliers_amended_rows:
  assumes "detect_outliers lib w = Inr (y_pred, amended)"
  shows "\<exists>d a. data w = Some d \<and> amended = Some a \<and> length (rows a) = length (rows d)"
proof -
  from detect_outliers_returns [OF assms] obtain d model where
    d: "data w = Some d" and a: "amended_data lib w model = Inr amended" by blast
  show ?thesis
  proof (cases "outlier_method w = Covariance")
    case True
    from amended_data_Covariance [OF True d a] d show ?thesis by auto
  next
    case False
    from amended_data_other [OF False, of lib model] a d show ?thesis by simp
  qed
qed

subsection \<open>The augmented table\<close>

text \<open>
  C3. When \<open>detect_outliers\<close> returns with the Covariance method, the augmented table has
  the input's attributes and class variables, the input's meta variables followed by the
  one new variable \<open>ContinuousVariable "Mahalanobis"\<close>, and as many rows as the input, in
  the same order: each row keeps its \<open>X\<close> and \<open>Y\<close> values and its metas, followed by the
  distance the fitted model reports for that row. When it returns with the OneClassSVM
  method, the augmented table is the input table itself.
\<close>

theorem covariance_adds_mahalanobis_column:
  assumes "data w = Some d" and "detect_outliers lib w = Inr (y_pred, amended)"
  shows "(outlier_method w = Covariance \<longrightarrow>
           (\<exists>a model mahal.
              amended = Some a \<and>
              fit lib (make_learner w) d = Inr model \<and>
              mahalanobis lib model (map row_X (rows d)) = Inr mahal \<and>
              attributes (domain a) = attributes (domain d) \<and>
              class_vars (domain a) = class_vars (domain d) \<and>
              metas (domain a) = metas (domain d) @ [ContinuousVariable ''Mahalanobis''] \<and>
              length (rows a) = length (rows d) \<and>
              length mahal = length (rows d) \<and>
              (\<forall>i < length (rows d).
                 row_X (rows a ! i) = row_X (rows d ! i) \<and>
                 row_Y (rows a ! i) = row_Y (rows d ! i) \<and>
                 row_metas (rows a ! i) = row_metas (rows d ! i) @ [Num (mahal ! i)]))) \<and>
         (outlier_method w = OneClassSVM \<longrightarrow> amended = Some d)"
proof -
  from detect_outliers_returns [OF assms(2)] assms(1) obtain model where
    f: "fit lib (make_learner w) d = Inr model" and
    a: "amended_data lib w model = Inr amended" by auto
  have cov: "outlier_method w = Covariance \<longrightarrow>
           (\<exists>a model mahal.
              amended = Some a \<and>
              fit lib (make_learner w) d = Inr model \<and>
              mahalanobis lib model (map row_X (rows d)) = Inr mahal \<and>
              attributes (domain a) = attributes (domain d) \<and>
              class_vars (domain a) = class_vars (domain d) \<and>
              metas (domain a) = metas (domain d) @ [ContinuousVariable ''Mahalanobis''] \<and>
              length (rows a) = length (rows d) \<and>
              length mahal = length (rows d) \<and>
              (\<forall>i < length (rows d).
                 row_X (rows a ! i) = row_X (rows d ! i) \<and>
                 row_Y (rows a ! i) = row_Y (rows d ! i) \<and>
                 row_metas (rows a ! i) = row_metas (rows d ! i) @ [Num (mahal ! i)]))"
  proof
    assume c: "outlier_method w = Covariance"
    from amended_data_Covariance [OF c assms(1) a] obtain mahal where
      m: "mahalanobis lib model (table_X d) = Inr mahal" and
      l: "length mahal = length (rows d)" and
      e: "amended = Some \<lparr>domain = \<lparr>attributes = attributes (domain d),
                                       class_vars = class_vars (domain d),
                                       metas = metas (domain d) @
                                               [ContinuousVariable ''Mahalanobis'']\<rparr>,
                            rows = map2 (\<lambda>r v. r\<lparr>row_metas := row_metas r @ [Num v]\<rparr>)
                                     (rows d) mahal\<rparr>"
      by blast
    let ?a = "\<lparr>domain = \<lparr>attributes = attributes (domain d),
                                       class_vars = class_vars (domain d),
                                       metas = metas (domain d) @
                                               [ContinuousVariable ''Mahalanobis'']\<rparr>,
                            rows = map2 (\<lambda>r v. r\<lparr>row_metas := row_metas r @ [Num v]\<rparr>)
                                     (rows d) mahal\<rparr>"
    have "amended = Some ?a \<and>
              fit lib (make_learner w) d = Inr model \<and>
              mahalanobis lib model (map row_X (rows d)) = Inr mahal \<and>
              attributes (domain ?a) = attributes (domain d) \<and>
              class_vars (domain ?a) = class_vars (domain d) \<and>
              metas (domain ?a) = metas (domain d) @ [ContinuousVariable ''Mahalanobis''] \<and>
              length (rows ?a) = length (rows d) \<and>
              length mahal = length (rows d) \<and>
              (\<forall>i < length (rows d).
                 row_X (rows ?a ! i) = row_X (rows d ! i) \<and>
                 row_Y (rows ?a ! i) = row_Y (rows d ! i) \<and>
                 row_metas (rows ?a ! i) = row_metas (rows d ! i) @ [Num (mahal ! i)])"
      using e f m l by (simp add: table_X_def)
    then show "\<exists>a model mahal.
              amended = Some a \<and>
              fit lib (make_learner w) d = Inr model \<and>
              mahalanobis lib model (map row_X (rows d)) = Inr mahal \<and>
              attributes (domain a) = attributes (domain d) \<and>
              class_vars (domain a) = class_vars (domain d) \<and>
              metas (domain a) = metas (domain d) @ [ContinuousVariable ''Mahalanobis''] \<and>
              length (rows a) = length (rows d) \<and>
              length mahal = length (rows d) \<and>
              (\<forall>i < length (rows d).
                 row_X (rows a ! i) = row_X (rows d ! i) \<and>
                 row_Y (rows a ! i) = row_Y (rows d ! i) \<and>
                 row_metas (rows a ! i) = row_metas (rows d ! i) @ [Num (mahal ! i)])"
      by blast
  qed
  have svm: "outlier_method w = OneClassSVM \<longrightarrow> amended = Some d"
  proof
    assume "outlier_method w = OneClassSVM"
    then have "outlier_method w \<noteq> Covariance"
      by (simp add: OneClassSVM_def Covariance_def)
    from amended_data_other [OF this, of lib model] a assms(1)
    show "amended = Some d" by simp
  qed
  show ?thesis by (intro conjI cov svm)
qed

theorem covariance_adds_mahalanobis_column_witness:
  "data (default_widget\<lparr>data := Some iris3, outlier_method := Covariance\<rparr>) = Some iris3 \<and>
   detect_outliers (fixed_library (Inr ()) [1, - 1, 1] [1 / 2, 2, 1])
     (default_widget\<lparr>data := Some iris3, outlier_method := Covariance\<rparr>) =
     Inr ([1, - 1, 1],
          Some \<lparr>domain = \<lparr>attributes = [ContinuousVariable ''sepal'',
                                          ContinuousVariable ''petal''],
                            class_vars = [DiscreteVariable ''iris''],
                            metas = [StringVariable ''id'',
                                     ContinuousVariable ''Mahalanobis'']\<rparr>,
                 rows = [\<lparr>row_X = [5, 1], row_Y = [0], row_metas = [Str ''a'', Num (1 / 2)]\<rparr>,
                         \<lparr>row_X = [7, 4], row_Y = [1], row_metas = [Str ''b'', Num 2]\<rparr>,
                         \<lparr>row_X = [6, 5], row_Y = [2], row_metas = [Str ''c'', Num 1]\<rparr>]\<rparr>) \<and>
   detect_outliers (fixed_library (Inr ()) [1, - 1, 1] [1 / 2, 2, 1])
     (default_widget\<lparr>data := Some iris3\<rparr>) = Inr ([1, - 1, 1], Some iris3)"
proof -
  let ?ok = "fixed_library (Inr ()) [1, - 1, 1] [1 / 2, 2, 1]"
  let ?c = "default_widget\<lparr>data := Some iris3, outlier_method := Covariance\<rparr>"
  let ?s = "default_widget\<lparr>data := Some iris3\<rparr>"
  have dc: "data ?c = Some iris3" by simp
  have ds: "data ?s = Some iris3" by simp
  have ec: "detect_outliers ?ok ?c =
     Inr ([1, - 1, 1],
          Some \<lparr>domain = \<lparr>attributes = [ContinuousVariable ''sepal'',
                                          ContinuousVariable ''petal''],
                            class_vars = [DiscreteVariable ''iris''],
                            metas = [StringVariable ''id'',
                                     ContinuousVariable ''Mahalanobis'']\<rparr>,
                 rows = [\<lparr>row_X = [5, 1], row_Y = [0], row_metas = [Str ''a'', Num (1 / 2)]\<rparr>,
                         \<lparr>row_X = [7, 4], row_Y = [1], row_metas = [Str ''b'', Num 2]\<rparr>,
                         \<lparr>row_X = [6, 5], row_Y = [2], row_metas = [Str ''c'', Num 1]\<rparr>]\<rparr>)"
    by (simp add: detect_outliers_def fixed_library_def amended_data_def len_def iris3_def)
  have os: "outlier_method ?s = OneClassSVM"
    by (simp add: default_widget_def init_widget_def)
  obtain y am where es: "detect_outliers ?ok ?s = Inr (y, am)" and y: "y = [1, - 1, 1]"
    by (simp add: detect_outliers_def fixed_library_def amended_data_def default_widget_def
        init_widget_def OneClassSVM_def Covariance_def)
  from covariance_adds_mahalanobis_column [OF ds es] os have "am = Some iris3" by blast
  with es y have "detect_outliers ?ok ?s = Inr ([1, - 1, 1], Some iris3)" by simp
  with dc ec covariance_adds_mahalanobis_column [OF dc ec]
  show ?thesis by blast
qed

lemma mset_map_filter_partition:
  "mset (map f (filter P xs)) + mset (map f (filter (\<lambda>x. \<not> P x) xs)) = mset (map f xs)"
  by (induction xs) simp_all

subsection \<open>The learner's parameters\<close>

text \<open>
  C5. The learner that \<open>detect_outliers\<close> fits on the input table is built from the stored
  settings: with OneClassSVM it is \<open>OneClassSVMLearner\<close> with \<open>gamma = gamma\<close>,
  \<open>nu = nu / 100\<close> and the preprocessors of \<open>SklLearner\<close>; with Covariance it is
  \<open>EllipticEnvelopeLearner\<close> with \<open>contamination = cont / 100\<close> and with
  \<open>support_fraction = support_fraction\<close> if \<open>empirical_covariance\<close> is set, \<open>None\<close> (the
  estimator's own default) otherwise. If fitting that learner raises, \<open>detect_outliers\<close>
  raises the same exception; if \<open>detect_outliers\<close> returns labels, they are the
  predictions of the model fitted from that learner.
\<close>

theorem learner_built_from_settings:
  assumes "data w = Some d"
  shows "(outlier_method w = OneClassSVM \<longrightarrow>
            make_learner w =
              OneClassSVMLearner (gamma w) (real_of_int (nu w) / 100) SklLearner_preprocessors \<and>
            (fit lib (OneClassSVMLearner (gamma w) (real_of_int (nu w) / 100)
                        SklLearner_preprocessors) d = Inl e \<longrightarrow>
               detect_outliers lib w = Inl e) \<and>
            (detect_outliers lib w = Inr (y_pred, amended) \<longrightarrow>
               (\<exists>model.
                  fit lib (OneClassSVMLearner (gamma w) (real_of_int (nu w) / 100)
                             SklLearner_preprocessors) d = Inr model \<and>
                  predict lib model d = Inr y_pred))) \<and>
         (outlier_method w = Covariance \<longrightarrow>
            make_learner w =
              EllipticEnvelopeLearner
                (if empirical_covariance w then Some (support_fraction w) else None)
                (real_of_int (cont w) / 100) \<and>
            (fit lib (EllipticEnvelopeLearner
                        (if empirical_covariance w then Some (support_fraction w) else None)
                        (real_of_int (cont w) / 100)) d = Inl e \<longrightarrow>
               detect_outliers lib w = Inl e) \<and>
            (detect_outliers lib w = Inr (y_pred, amended) \<longrightarrow>
               (\<exists>model.
                  fit lib (EllipticEnvelopeLearner
                             (if empirical_covariance w then Some (support_fraction w)
                              else None)
                             (real_of_int (cont w) / 100)) d = Inr model \<and>
                  predict lib model d = Inr y_pred)))"
proof -
  have ret: "detect_outliers lib w = Inr (y_pred, amended) \<longrightarrow>
      (\<exists>model. fit lib (make_learner w) d = Inr model \<and> predict lib model d = Inr y_pred)"
    using detect_outliers_returns [of lib w y_pred amended] assms by auto
  have raises: "fit lib (make_learner w) d = Inl e \<longrightarrow> detect_outliers lib w = Inl e"
    using detect_outliers_fit_raises [OF assms, of lib e] by simp
  have svm: "outlier_method w = OneClassSVM \<Longrightarrow>
      make_learner w =
        OneClassSVMLearner (gamma w) (real_of_int (nu w) / 100) SklLearner_preprocessors"
    by (simp add: make_learner_def)
  have cov: "outlier_method w = Covariance \<Longrightarrow>
      make_learner w =
        EllipticEnvelopeLearner
          (if empirical_covariance w then Some (support_fraction w) else None)
          (real_of_int (cont w) / 100)"
    by (simp add: make_learner_def OneClassSVM_def Covariance_def)
  show ?thesis
  proof (intro conjI impI)
    assume o: "outlier_method w = OneClassSVM"
    show "make_learner w =
        OneClassSVMLearner (gamma w) (real_of_int (nu w) / 100) SklLearner_preprocessors"
      by (rule svm [OF o])
    {
      assume "fit lib (OneClassSVMLearner (gamma w) (real_of_int (nu w) / 100)
                        SklLearner_preprocessors) d = Inl e"
      with raises show "detect_outliers lib w = Inl e" by (simp add: svm [OF o])
    }
    {
      assume "detect_outliers lib w = Inr (y_pred, amended)"
      with ret show "\<exists>model.
                  fit lib (OneClassSVMLearner (gamma w) (real_of_int (nu w) / 100)
                             SklLearner_preprocessors) d = Inr model \<and>
                  predict lib model d = Inr y_pred"
        by (simp add: svm [OF o])
    }
  next
    assume c: "outlier_method w = Covariance"
    show "make_learner w =
        EllipticEnvelopeLearner
          (if empirical_covariance w then Some (support_fraction w) else None)
          (real_of_int (cont w) / 100)"
      by (rule cov [OF c])
    {
      assume "fit lib (EllipticEnvelopeLearner
                        (if empirical_covariance w then Some (support_fraction w) else None)
                        (real_of_int (cont w) / 100)) d = Inl e"
      with raises show "detect_outliers lib w = Inl e" by (simp add: cov [OF c])
    }
    {
      assume "detect_outliers lib w = Inr (y_pred, amended)"
      with ret show "\<exists>model.
                  fit lib (EllipticEnvelopeLearner
                             (if empirical_covariance w then Some (support_fraction w)
                              else None)
                             (real_of_int (cont w) / 100)) d = Inr model \<and>
                  predict lib model d = Inr y_pred"
        by (simp add: cov [OF c])
    }
  qed
qed

theorem learner_built_from_settings_witness:
  "data (default_widget\<lparr>data := Some iris3\<rparr>) = Some iris3 \<and>
   outlier_method (default_widget\<lparr>data := Some iris3\<rparr>) = OneClassSVM \<and>
   make_learner (default_widget\<lparr>data := Some iris3\<rparr>) =
     OneClassSVMLearner (1 / 100) (1 / 2) SklLearner_preprocessors \<and>
   detect_outliers
     (expecting_library (OneClassSVMLearner (1 / 100) (1 / 2) SklLearner_preprocessors)
        [1, - 1, 1] [])
     (default_widget\<lparr>data := Some iris3\<rparr>) = Inr ([1, - 1, 1], Some iris3) \<and>
   outlier_method
     (default_widget\<lparr>data := Some iris3, outlier_method := Covariance,
        empirical_covariance := True, support_fraction := 3 / 4\<rparr>) = Covariance \<and>
   make_learner
     (default_widget\<lparr>data := Some iris3, outlier_method := Covariance,
        empirical_covariance := True, support_fraction := 3 / 4\<rparr>) =
     EllipticEnvelopeLearner (Some (3 / 4)) (1 / 10) \<and>
   make_learner (default_widget\<lparr>data := Some iris3, outlier_method := Covariance\<rparr>) =
     EllipticEnvelopeLearner None (1 / 10) \<and>
   detect_outliers (fixed_library (Inl MemoryError) [] [])
     (default_widget\<lparr>data := Some iris3, outlier_method := Covariance\<rparr>) = Inl MemoryError"
proof -
  let ?s = "default_widget\<lparr>data := Some iris3\<rparr>"
  let ?e = "default_widget\<lparr>data := Some iris3, outlier_method := Covariance,
        empirical_covariance := True, support_fraction := 3 / 4\<rparr>"
  let ?c = "default_widget\<lparr>data := Some iris3, outlier_method := Covariance\<rparr>"
  let ?lib = "expecting_library (OneClassSVMLearner (1 / 100) (1 / 2) SklLearner_preprocessors)
        [1, - 1, 1] []"
  let ?mem = "fixed_library (Inl MemoryError) [] []"
  have ds: "data ?s = Some iris3" and de: "data ?e = Some iris3" and dc: "data ?c = Some iris3"
    by simp_all
  have os: "outlier_method ?s = OneClassSVM"
    by (simp add: default_widget_def init_widget_def)
  have oe: "outlier_method ?e = Covariance" and oc: "outlier_method ?c = Covariance"
    by simp_all
  have vals: "gamma default_widget = 1 / 100" "nu default_widget = 50"
    "cont default_widget = 10" "\<not> empirical_covariance default_widget"
    by (simp_all add: default_widget_def init_widget_def)
  from learner_built_from_settings [OF ds, of ?lib MemoryError "[]" None] os
  have ms: "make_learner ?s = OneClassSVMLearner (1 / 100) (1 / 2) SklLearner_preprocessors"
    by (simp add: vals)
  from learner_built_from_settings [OF de, of ?lib MemoryError "[]" None] oe
  have me: "make_learner ?e = EllipticEnvelopeLearner (Some (3 / 4)) (1 / 10)"
    by (simp add: vals)
  from learner_built_from_settings [OF dc, of ?lib MemoryError "[]" None] oc
  have mc: "make_learner ?c = EllipticEnvelopeLearner None (1 / 10)"
    by (simp add: vals)
  have "fit ?mem (EllipticEnvelopeLearner
          (if empirical_covariance ?c then Some (support_fraction ?c) else None)
          (real_of_int (cont ?c) / 100)) iris3 = Inl MemoryError"
    by (simp add: fixed_library_def)
  with learner_built_from_settings [OF dc, of ?mem MemoryError "[]" None] oc
  have fc: "detect_outliers ?mem ?c = Inl MemoryError"
    by blast
  have od: "outlier_method default_widget = OneClassSVM"
    by (simp add: default_widget_def init_widget_def)
  have ne: "OneClassSVM \<noteq> Covariance"
    by (simp add: OneClassSVM_def Covariance_def)
  have rs: "detect_outliers ?lib ?s = Inr ([1, - 1, 1], Some iris3)"
    by (simp add: detect_outliers_def ms expecting_library_def amended_data_def od ne)
  from ds os ms rs oe me mc fc show ?thesis by blast
qed

subsection \<open>The two outputs\<close>

text \<open>
  C1. When the table is true in a condition, \<open>detect_outliers\<close> returns and the model
  has predicted one label per row, each +1 or -1, then \<open>commit\<close> sends two tables over the
  augmented table's domain: the inliers are the augmented table's rows labelled +1, the
  outliers its rows labelled -1, both in the augmented table's order (the row indices of
  each output increase strictly). No row index is in both outputs, every row index is in
  one of them, and the rows of the two outputs together are the rows of the augmented
  table, each as often as there.
\<close>

theorem outputs_partition_by_label:
  assumes "data w = Some d" and "rows d \<noteq> []"
    and "detect_outliers lib w = Inr (y_pred, amended)"
    and "length y_pred = length (rows d)"
    and "set y_pred \<subseteq> {1, - 1}"
  shows "\<exists>a inliers outliers.
           amended = Some a \<and>
           fst (commit lib w) = Inr () \<and>
           Outputs_inliers (snd (commit lib w)) = Some inliers \<and>
           Outputs_outliers (snd (commit lib w)) = Some outliers \<and>
           domain inliers = domain a \<and> domain outliers = domain a \<and>
           rows inliers = map (\<lambda>i. rows a ! i) (where_eq y_pred 1) \<and>
           rows outliers = map (\<lambda>i. rows a ! i) (where_eq y_pred (- 1)) \<and>
           rows inliers = map snd (filter (\<lambda>p. fst p = 1) (zip y_pred (rows a))) \<and>
           rows outliers = map snd (filter (\<lambda>p. fst p = - 1) (zip y_pred (rows a))) \<and>
           sorted_wrt (<) (where_eq y_pred 1) \<and>
           sorted_wrt (<) (where_eq y_pred (- 1)) \<and>
           set (where_eq y_pred 1) \<inter> set (where_eq y_pred (- 1)) = {} \<and>
           set (where_eq y_pred 1) \<union> set (where_eq y_pred (- 1)) = {0..<length (rows a)} \<and>
           mset (rows inliers) + mset (rows outliers) = mset (rows a) \<and>
           n_inliers (snd (commit lib w)) = Some (length (rows inliers)) \<and>
           n_outliers (snd (commit lib w)) = Some (length (rows outliers))"
proof -
  from detect_outliers_amended_rows [OF assms(3)] assms(1) obtain a where
    a: "amended = Some a" and la: "length (rows a) = length (rows d)" by auto
  from assms(1,2) have t: "truthy (data w)" by (simp add: truthy_def)
  from assms(4) la have ly: "length y_pred = length (rows a)" by simp
  then have le: "length y_pred \<le> len a" by (simp add: len_def)
  from assms(3) a have det: "detect_outliers lib w = Inr (y_pred, Some a)" by simp
  let ?I = "where_eq y_pred 1" and ?O = "where_eq y_pred (- 1)"
  let ?inl = "\<lparr>domain = domain a, rows = map (\<lambda>i. rows a ! i) ?I\<rparr>"
  let ?outl = "\<lparr>domain = domain a, rows = map (\<lambda>i. rows a ! i) ?O\<rparr>"
  note c = commit_success [OF t det le]
  have disj: "set ?I \<inter> set ?O = {}"
    by (auto simp: set_where_eq)
  have cover: "set ?I \<union> set ?O = {0..<length (rows a)}"
  proof -
    have "\<forall>i < length y_pred. y_pred ! i = 1 \<or> y_pred ! i = - 1"
      using assms(5) nth_mem by blast
    then show ?thesis
      by (auto simp: set_where_eq ly)
  qed
  have fi: "map (\<lambda>i. rows a ! i) ?I = map snd (filter (\<lambda>p. fst p = 1) (zip y_pred (rows a)))"
    by (rule map_nth_where_eq [OF ly])
  have fo: "map (\<lambda>i. rows a ! i) ?O =
      map snd (filter (\<lambda>p. fst p = - 1) (zip y_pred (rows a)))"
    by (rule map_nth_where_eq [OF ly])
  have neg: "filter (\<lambda>p. fst p = - 1) (zip y_pred (rows a)) =
      filter (\<lambda>p. \<not> fst p = 1) (zip y_pred (rows a))"
  proof (rule filter_cong [OF refl])
    fix p assume p: "p \<in> set (zip y_pred (rows a))"
    obtain l r where "p = (l, r)" by (cases p)
    with p have "fst p \<in> set y_pred" by (auto dest: set_zip_leftD)
    with assms(5) show "(fst p = - 1) = (\<not> fst p = 1)" by auto
  qed
  have "mset (map snd (filter (\<lambda>p. fst p = 1) (zip y_pred (rows a)))) +
        mset (map snd (filter (\<lambda>p. \<not> fst p = 1) (zip y_pred (rows a)))) =
        mset (map snd (zip y_pred (rows a)))"
    by (rule mset_map_filter_partition)
  then have ms: "mset (map (\<lambda>i. rows a ! i) ?I) + mset (map (\<lambda>i. rows a ! i) ?O) = mset (rows a)"
    by (simp add: fi fo neg ly)
  have "amended = Some a \<and>
           fst (commit lib w) = Inr () \<and>
           Outputs_inliers (snd (commit lib w)) = Some ?inl \<and>
           Outputs_outliers (snd (commit lib w)) = Some ?outl \<and>
           domain ?inl = domain a \<and> domain ?outl = domain a \<and>
           rows ?inl = map (\<lambda>i. rows a ! i) (where_eq y_pred 1) \<and>
           rows ?outl = map (\<lambda>i. rows a ! i) (where_eq y_pred (- 1)) \<and>
           rows ?inl = map snd (filter (\<lambda>p. fst p = 1) (zip y_pred (rows a))) \<and>
           rows ?outl = map snd (filter (\<lambda>p. fst p = - 1) (zip y_pred (rows a))) \<and>
           sorted_wrt (<) (where_eq y_pred 1) \<and>
           sorted_wrt (<) (where_eq y_pred (- 1)) \<and>
           set (where_eq y_pred 1) \<inter> set (where_eq y_pred (- 1)) = {} \<and>
           set (where_eq y_pred 1) \<union> set (where_eq y_pred (- 1)) = {0..<length (rows a)} \<and>
           mset (rows ?inl) + mset (rows ?outl) = mset (rows a) \<and>
           n_inliers (snd (commit lib w)) = Some (length (rows ?inl)) \<and>
           n_outliers (snd (commit lib w)) = Some (length (rows ?outl))"
  proof (intro conjI)
    show "amended = Some a" by (rule a)
    show "fst (commit lib w) = Inr ()" by (simp add: c)
    show "Outputs_inliers (snd (commit lib w)) = Some ?inl" by (simp add: c)
    show "Outputs_outliers (snd (commit lib w)) = Some ?outl" by (simp add: c)
    show "domain ?inl = domain a" by simp
    show "domain ?outl = domain a" by simp
    show "rows ?inl = map (\<lambda>i. rows a ! i) (where_eq y_pred 1)" by simp
    show "rows ?outl = map (\<lambda>i. rows a ! i) (where_eq y_pred (- 1))" by simp
    show "rows ?inl = map snd (filter (\<lambda>p. fst p = 1) (zip y_pred (rows a)))"
      using fi by simp
    show "rows ?outl = map snd (filter (\<lambda>p. fst p = - 1) (zip y_pred (rows a)))"
      using fo by simp
    show "sorted_wrt (<) (where_eq y_pred 1)" by (rule sorted_where_eq)
    show "sorted_wrt (<) (where_eq y_pred (- 1))" by (rule sorted_where_eq)
    show "set (where_eq y_pred 1) \<inter> set (where_eq y_pred (- 1)) = {}" by (rule disj)
    show "set (where_eq y_pred 1) \<union> set (where_eq y_pred (- 1)) = {0..<length (rows a)}"
      by (rule cover)
    show "mset (rows ?inl) + mset (rows ?outl) = mset (rows a)"
      using ms by simp
    show "n_inliers (snd (commit lib w)) = Some (length (rows ?inl))" by (simp add: c)
    show "n_outliers (snd (commit lib w)) = Some (length (rows ?outl))" by (simp add: c)
  qed
  then show ?thesis by blast
qed

theorem outputs_partition_by_label_witness:
  "data (default_widget\<lparr>data := Some iris3\<rparr>) = Some iris3 \<and>
   rows iris3 \<noteq> [] \<and>
   detect_outliers (fixed_library (Inr ()) [1, - 1, 1] [])
     (default_widget\<lparr>data := Some iris3\<rparr>) = Inr ([1, - 1, 1], Some iris3) \<and>
   length [1, - 1, 1 :: int] = length (rows iris3) \<and>
   set [1, - 1, 1 :: int] \<subseteq> {1, - 1} \<and>
   (\<exists>inliers outliers.
      Outputs_inliers
        (snd (commit (fixed_library (Inr ()) [1, - 1, 1] [])
           (default_widget\<lparr>data := Some iris3\<rparr>))) = Some inliers \<and>
      Outputs_outliers
        (snd (commit (fixed_library (Inr ()) [1, - 1, 1] [])
           (default_widget\<lparr>data := Some iris3\<rparr>))) = Some outliers \<and>
      domain inliers = domain iris3 \<and> domain outliers = domain iris3 \<and>
      rows inliers = [\<lparr>row_X = [5, 1], row_Y = [0], row_metas = [Str ''a'']\<rparr>,
                      \<lparr>row_X = [6, 5], row_Y = [2], row_metas = [Str ''c'']\<rparr>] \<and>
      rows outliers = [\<lparr>row_X = [7, 4], row_Y = [1], row_metas = [Str ''b'']\<rparr>])"
proof -
  let ?w = "default_widget\<lparr>data := Some iris3\<rparr>"
  let ?ok = "fixed_library (Inr ()) [1, - 1, 1] []"
  have dw: "data ?w = Some iris3" by simp
  have ne: "rows iris3 \<noteq> []" by (simp add: iris3_def)
  have od: "outlier_method default_widget = OneClassSVM"
    by (simp add: default_widget_def init_widget_def)
  have neq: "OneClassSVM \<noteq> Covariance"
    by (simp add: OneClassSVM_def Covariance_def)
  have det: "detect_outliers ?ok ?w = Inr ([1, - 1, 1], Some iris3)"
    by (simp add: detect_outliers_def fixed_library_def amended_data_def od neq)
  have len: "length [1, - 1, 1 :: int] = length (rows iris3)" by (simp add: iris3_def)
  have lab: "set [1, - 1, 1 :: int] \<subseteq> {1, - 1}" by simp
  from outputs_partition_by_label [OF dw ne det len lab]
  obtain a inl outl where
    a: "Some iris3 = Some a" and
    i: "Outputs_inliers (snd (commit ?ok ?w)) = Some inl" and
    ou: "Outputs_outliers (snd (commit ?ok ?w)) = Some outl" and
    di: "domain inl = domain a" and dout: "domain outl = domain a" and
    ri: "rows inl = map (\<lambda>i. rows a ! i) (where_eq [1, - 1, 1] 1)" and
    ro: "rows outl = map (\<lambda>i. rows a ! i) (where_eq [1, - 1, 1] (- 1))"
    by blast
  from a have a': "a = iris3" by simp
  have ri': "rows inl = [\<lparr>row_X = [5, 1], row_Y = [0], row_metas = [Str ''a'']\<rparr>,
                      \<lparr>row_X = [6, 5], row_Y = [2], row_metas = [Str ''c'']\<rparr>]"
    unfolding ri a' by (simp add: where_eq_Cons where_eq_Nil iris3_def)
  have ro': "rows outl = [\<lparr>row_X = [7, 4], row_Y = [1], row_metas = [Str ''b'']\<rparr>]"
    unfolding ro a' by (simp add: where_eq_Cons where_eq_Nil iris3_def)
  from dw ne det len lab i ou di dout ri' ro' a' show ?thesis by blast
qed

end
